theory Spec2Isabelle
  imports Main "HOL-Library.Sublist"
begin

section \<open>Python values, exceptions and strings\<close>

text \<open>
  Exceptions are values. Every handler of the sources is \<open>except Exception\<close>, so the model
  keeps the class only where the source or the interpreter names one, and the text that
  \<open>str(e)\<close> gives. \<open>Error\<close> stands for an exception raised by a library (database driver,
  HTTP client, LLM client, file system) with its message. What does not derive from
  \<open>Exception\<close> (a cancellation, the exit of the interpreter) passes every handler and is not
  part of the model. \<open>PendingRollbackError\<close> is what SQLAlchemy raises on a session whose
  transaction has failed and was not rolled back; its text goes on with the exception that
  failed the transaction, which no code of the model reads.
\<close>

datatype exn =
    TypeError string
  | AttributeError string
  | HTTPException int string
  | PendingRollbackError
  | Error string

fun digit_char :: "nat \<Rightarrow> char" where
  "digit_char n = char_of (48 + n)"

fun str_nat :: "nat \<Rightarrow> string" where
  "str_nat n = (if n < 10 then [digit_char n] else str_nat (n div 10) @ [digit_char (n mod 10)])"

definition str_int :: "int \<Rightarrow> string" where
  "str_int i = (if i < 0 then CHR ''-'' # str_nat (nat (- i)) else str_nat (nat i))"

text \<open>\<open>str(e)\<close>; an \<open>HTTPException\<close> prints as \<open>status: detail\<close>.\<close>

fun str_exn :: "exn \<Rightarrow> string" where
  "str_exn (TypeError m) = m"
| "str_exn (AttributeError m) = m"
| "str_exn (HTTPException code detail) = str_int code @ '': '' @ detail"
| "str_exn PendingRollbackError =
     ''This Session'' @ [CHR 0x27] @ ''s transaction has been rolled back due to a previous ''
     @ ''exception during flush. To begin a new transaction with this Session, first issue ''
     @ ''Session.rollback().''"
| "str_exn (Error m) = m"

text \<open>
  The values a keyword argument can carry: the LLM supplies JSON values, the execution
  context supplies integers and the database session.
\<close>

datatype pyval =
    PNone
  | PInt int
  | PStr string
  | PDict "(string \<times> string) list"
  | PSession

fun type_name :: "pyval \<Rightarrow> string" where
  "type_name PNone = ''NoneType''"
| "type_name (PInt _) = ''int''"
| "type_name (PStr _) = ''str''"
| "type_name (PDict _) = ''dict''"
| "type_name PSession = ''Session''"

text \<open>The \<open>AttributeError\<close> of calling a method the value does not have.\<close>

definition no_attribute :: "pyval \<Rightarrow> string \<Rightarrow> exn" where
  "no_attribute v attr =
     AttributeError ([CHR 0x27] @ type_name v @ [CHR 0x27] @ '' object has no attribute ''
                     @ [CHR 0x27] @ attr @ [CHR 0x27])"

text \<open>
  Strings are lists of code points below 256. \<open>str.lower\<close>, \<open>str.upper\<close> and the white space
  that \<open>str.strip\<close> removes are Python's on that range; \<open>upper_char\<close> is the ASCII part of
  \<open>str.upper\<close>, which is all that a comparison with an ASCII word can see.
\<close>

definition lower_char :: "char \<Rightarrow> char" where
  "lower_char c =
     (let n = (of_char c :: nat)
      in if (65 \<le> n \<and> n \<le> 90) \<or> (192 \<le> n \<and> n \<le> 214) \<or> (216 \<le> n \<and> n \<le> 222)
         then char_of (n + 32) else c)"

definition upper_char :: "char \<Rightarrow> char" where
  "upper_char c =
     (let n = (of_char c :: nat)
      in if 97 \<le> n \<and> n \<le> 122 then char_of (n - 32) else c)"

definition isspace :: "char \<Rightarrow> bool" where
  "isspace c =
     (let n = (of_char c :: nat)
      in (9 \<le> n \<and> n \<le> 13) \<or> (28 \<le> n \<and> n \<le> 32) \<or> n = 133 \<or> n = 160)"

definition lower :: "string \<Rightarrow> string" where
  "lower s = map lower_char s"

definition upper :: "string \<Rightarrow> string" where
  "upper s = map upper_char s"

definition strip :: "string \<Rightarrow> string" where
  "strip s = rev (dropWhile isspace (rev (dropWhile isspace s)))"

text \<open>\<open>s.startswith(p)\<close> and \<open>k in s\<close>.\<close>

fun startswith :: "string \<Rightarrow> string \<Rightarrow> bool" where
  "startswith s [] = True"
| "startswith [] (p # ps) = False"
| "startswith (c # cs) (p # ps) = (c = p \<and> startswith cs ps)"

fun contains :: "string \<Rightarrow> string \<Rightarrow> bool" where
  "contains k [] = (k = [])"
| "contains k (c # cs) = (startswith (c # cs) k \<or> contains k cs)"

section \<open>Tool registry\<close>

text \<open>
  The result dictionaries of the handlers, one constructor per shape:
  \<open>{"error": m}\<close>, \<open>{"rows": rows, "count": n}\<close>, \<open>{"results": hits, "count": n}\<close>,
  \<open>{"status_code": c, "data": d}\<close>, \<open>{"filename": f, "content": c, "size_bytes": s,
  "processed": p}\<close>, \<open>{"results": text}\<close>; \<open>Text\<close> is the plain string that the knowledge
  base tool of \<open>build_agent\<close> returns.
\<close>

type_synonym row = "(string \<times> pyval) list"

typedecl score \<comment> \<open>a similarity score, a float\<close>

datatype http_data = JsonData string | TextData string

datatype tool_result =
    ErrorEnvelope string
  | SqlRows "row list" int
  | VectorResults "(string \<times> score) list" int
  | HttpResponse int http_data
  | FileContent string string "int option" bool
  | WebResults string
  | Text string

text \<open>The calls a handler makes to the outside, in order.\<close>

datatype effect =
    SqlExecute string
  | DocumentQuery pyval pyval
  | PathExists string
  | FileRead string
  | HttpSend string pyval
  | VectorQuery pyval pyval pyval pyval
  | WebQuery pyval pyval

text \<open>
  What a call does: the value it returns or the exception it raises, and the outside calls
  it made on the way.
\<close>

type_synonym returned = "tool_result \<times> effect list"

type_synonym outcome = "(exn + tool_result) \<times> effect list"

definition returns :: "returned \<Rightarrow> outcome" where
  "returns r = (Inr (fst r), snd r)"

definition raises :: "exn \<Rightarrow> outcome" where
  "raises e = (Inl e, [])"

text \<open>
  A dictionary of keyword arguments is a list of pairs read by \<open>map_of\<close>: the first pair of
  a key gives its value.
\<close>

type_synonym kwargs = "(string \<times> pyval) list"

record Document =
  doc_filename :: string
  doc_file_path :: string
  doc_file_size :: "int option"
  doc_processed :: bool
  doc_user_id :: int

record http_reply =
  reply_status_code :: int
  reply_json :: "string option" \<comment> \<open>\<open>response.json()\<close>, \<open>None\<close> when it raises\<close>
  reply_text :: string

record hit =
  hit_text :: string
  hit_score :: score

text \<open>
  What is outside the repository: the database behind the session, the file system, the
  HTTP client, the vector store with its embedding client, the search engine.
  \<open>bind_other\<close> is how the database compares a value that is not an integer with an integer
  column (an error, no match, or the integer it is read as); \<open>repr_other\<close> is \<open>str\<close> of a
  dictionary or a session; \<open>round3\<close> is \<open>round(x, 3)\<close> on floats.
\<close>

record world =
  db_execute :: "string \<Rightarrow> exn + row list"
  documents :: "int \<rightharpoonup> Document"
  bind_other :: "pyval \<Rightarrow> exn + int option"
  files :: "string \<rightharpoonup> exn + string"
  http_send :: "string \<Rightarrow> pyval \<Rightarrow> pyval \<Rightarrow> pyval \<Rightarrow> exn + http_reply"
  qdrant_query :: "pyval \<Rightarrow> pyval \<Rightarrow> pyval \<Rightarrow> pyval \<Rightarrow> exn + hit list"
  round3 :: "score \<Rightarrow> score"
  ddgs_text :: "pyval \<Rightarrow> pyval \<Rightarrow> exn + (string \<times> string) list list"
  repr_other :: "pyval \<Rightarrow> string"

record tool_definition =
  td_name :: string
  td_description :: string

text \<open>\<open>TOOL_DEFINITIONS\<close>; the parameter schemas are not used by the code modelled here.\<close>

definition TOOL_DEFINITIONS :: "(string \<times> tool_definition) list" where
  "TOOL_DEFINITIONS =
     [(''vector_search'', \<lparr>td_name = ''vector_search'', td_description =
         ''Search the knowledge base for relevant information using semantic similarity. Use this when you need to find specific facts or context from uploaded documents.''\<rparr>),
      (''sql_query'', \<lparr>td_name = ''sql_query'', td_description =
         ''Execute a read-only SQL query on the PostgreSQL database. Only SELECT statements are allowed. Use this to retrieve structured data.''\<rparr>),
      (''http_fetch'', \<lparr>td_name = ''http_fetch'', td_description =
         ''Make an HTTP request to an external API or URL. Returns the response data. Use this to fetch real-time data or interact with external services.''\<rparr>),
      (''file_fetch'', \<lparr>td_name = ''file_fetch'', td_description =
         ''Retrieve the full contents of an uploaded document by its ID. Use this to access complete document text.''\<rparr>),
      (''web_search'', \<lparr>td_name = ''web_search'', td_description =
         ''Search the internet for current information, news, facts, or any topic. Use this when you need up-to-date information that may not be in your knowledge base.''\<rparr>)]"

definition get_tool_definition :: "string \<Rightarrow> tool_definition option" where
  "get_tool_definition tool_name = map_of TOOL_DEFINITIONS tool_name"

subsection \<open>vector_search\<close>

text \<open>\<open>vectorstore_qdrant.search\<close>: every failure is raised again with a prefix.\<close>

definition search :: "world \<Rightarrow> pyval \<Rightarrow> pyval \<Rightarrow> pyval \<Rightarrow> pyval \<Rightarrow> exn + hit list" where
  "search w user_id agent_id query top_k =
     (case qdrant_query w user_id agent_id query top_k of
        Inr hits \<Rightarrow> Inr hits
      | Inl e \<Rightarrow> Inl (Error (''Qdrant search failed: '' @ str_exn e)))"

definition vector_search_body :: "world \<Rightarrow> pyval \<Rightarrow> pyval \<Rightarrow> pyval \<Rightarrow> pyval \<Rightarrow> returned" where
  "vector_search_body w user_id agent_id query top_k =
     (case search w user_id agent_id query top_k of
        Inr results \<Rightarrow>
          (VectorResults (map (\<lambda>r. (hit_text r, round3 w (hit_score r))) results)
             (int (length results)),
           [VectorQuery user_id agent_id query top_k])
      | Inl e \<Rightarrow>
          (ErrorEnvelope (''Vector search failed: '' @ str_exn e),
           [VectorQuery user_id agent_id query top_k]))"

text \<open>
  Calling \<open>handler(**kwargs)\<close> binds the parameters first: a parameter without a default
  that is missing raises \<open>TypeError\<close> before the body and its \<open>try\<close> are entered; the
  \<open>**kwargs\<close> parameter takes every other key.
\<close>

definition vector_search_handler :: "world \<Rightarrow> kwargs \<Rightarrow> outcome" where
  "vector_search_handler w kw =
     (case (map_of kw ''user_id'', map_of kw ''agent_id'', map_of kw ''query'') of
        (Some user_id, Some agent_id, Some query) \<Rightarrow>
          returns (vector_search_body w user_id agent_id query
                 (case map_of kw ''top_k'' of None \<Rightarrow> PInt 5 | Some k \<Rightarrow> k))
      | _ \<Rightarrow> raises (TypeError ''vector_search_handler() missing required positional argument''))"

subsection \<open>sql_query\<close>

definition dangerous :: "string list" where
  "dangerous = [''insert'', ''update'', ''delete'', ''drop'', ''alter'', ''create'', ''truncate'']"

text \<open>
  The body of \<open>sql_query_handler\<close>, inside its \<open>try\<close>. \<open>db_execute\<close> is
  \<open>db.execute(query)\<close> followed by reading \<open>result.mappings()\<close>; whatever it raises is
  caught by the handler's \<open>except\<close>.
\<close>

definition sql_query_body :: "world \<Rightarrow> pyval \<Rightarrow> pyval \<Rightarrow> returned" where
  "sql_query_body w db query =
     (case query of
        PStr q \<Rightarrow>
          (let query_lower = lower (strip q)
           in if \<not> startswith query_lower ''select''
              then (ErrorEnvelope ''Only SELECT queries are allowed'', [])
              else if list_ex (\<lambda>keyword. contains keyword query_lower) dangerous
              then (ErrorEnvelope ''Query contains forbidden keywords'', [])
              else (case db of
                      PSession \<Rightarrow>
                        (case db_execute w q of
                           Inr rows \<Rightarrow> (SqlRows rows (int (length rows)), [SqlExecute q])
                         | Inl e \<Rightarrow>
                             (ErrorEnvelope (''SQL query failed: '' @ str_exn e), [SqlExecute q]))
                    | _ \<Rightarrow>
                        (ErrorEnvelope
                           (''SQL query failed: '' @ str_exn (no_attribute db ''execute'')), [])))
      | _ \<Rightarrow>
          (ErrorEnvelope (''SQL query failed: '' @ str_exn (no_attribute query ''strip'')), []))"

definition sql_query_handler :: "world \<Rightarrow> kwargs \<Rightarrow> outcome" where
  "sql_query_handler w kw =
     (case (map_of kw ''db'', map_of kw ''query'') of
        (Some db, Some query) \<Rightarrow> returns (sql_query_body w db query)
      | _ \<Rightarrow> raises (TypeError ''sql_query_handler() missing required positional argument''))"

subsection \<open>http_fetch\<close>

definition http_result :: "exn + http_reply \<Rightarrow> tool_result" where
  "http_result r =
     (case r of
        Inr response \<Rightarrow>
          HttpResponse (reply_status_code response)
            (case reply_json response of
               Some data \<Rightarrow> JsonData data
             | None \<Rightarrow> TextData (reply_text response))
      | Inl e \<Rightarrow> ErrorEnvelope (''HTTP request failed: '' @ str_exn e))"

definition http_fetch_body :: "world \<Rightarrow> pyval \<Rightarrow> pyval \<Rightarrow> pyval \<Rightarrow> pyval \<Rightarrow> returned" where
  "http_fetch_body w url method headers body =
     (case method of
        PStr m \<Rightarrow>
          (if upper m = ''GET''
           then (http_result (http_send w ''GET'' url headers PNone), [HttpSend ''GET'' url])
           else if upper m = ''POST''
           then (http_result (http_send w ''POST'' url headers body), [HttpSend ''POST'' url])
           else (ErrorEnvelope (''Unsupported method: '' @ m), []))
      | _ \<Rightarrow>
          (ErrorEnvelope (''HTTP request failed: '' @ str_exn (no_attribute method ''upper'')), []))"

definition http_fetch_handler :: "world \<Rightarrow> kwargs \<Rightarrow> outcome" where
  "http_fetch_handler w kw =
     (case map_of kw ''url'' of
        Some url \<Rightarrow>
          returns (http_fetch_body w url
                 (case map_of kw ''method'' of None \<Rightarrow> PStr ''GET'' | Some m \<Rightarrow> m)
                 (case map_of kw ''headers'' of None \<Rightarrow> PNone | Some h \<Rightarrow> h)
                 (case map_of kw ''body'' of None \<Rightarrow> PNone | Some b \<Rightarrow> b))
      | None \<Rightarrow> raises (TypeError ''http_fetch_handler() missing required positional argument''))"

subsection \<open>file_fetch\<close>

definition bind_param :: "world \<Rightarrow> pyval \<Rightarrow> exn + int option" where
  "bind_param w v = (case v of PInt n \<Rightarrow> Inr (Some n) | _ \<Rightarrow> bind_other w v)"

text \<open>
  \<open>db.query(Document).filter(Document.id == doc_id, Document.user_id == user_id).first()\<close>
\<close>

definition query_document :: "world \<Rightarrow> pyval \<Rightarrow> pyval \<Rightarrow> exn + Document option" where
  "query_document w doc_id user_id =
     (case bind_param w doc_id of
        Inl e \<Rightarrow> Inl e
      | Inr d \<Rightarrow>
          (case bind_param w user_id of
             Inl e \<Rightarrow> Inl e
           | Inr u \<Rightarrow>
               Inr (case d of
                      None \<Rightarrow> None
                    | Some i \<Rightarrow>
                        (case documents w i of
                           None \<Rightarrow> None
                         | Some doc \<Rightarrow> if Some (doc_user_id doc) = u then Some doc else None))))"

definition file_fetch_body :: "world \<Rightarrow> pyval \<Rightarrow> pyval \<Rightarrow> pyval \<Rightarrow> returned" where
  "file_fetch_body w db user_id doc_id =
     (case db of
        PSession \<Rightarrow>
          (case query_document w doc_id user_id of
             Inl e \<Rightarrow>
               (ErrorEnvelope (''File fetch failed: '' @ str_exn e), [DocumentQuery doc_id user_id])
           | Inr None \<Rightarrow>
               (ErrorEnvelope ''Document not found or access denied'',
                [DocumentQuery doc_id user_id])
           | Inr (Some doc) \<Rightarrow>
               (case files w (doc_file_path doc) of
                  None \<Rightarrow>
                    (ErrorEnvelope ''File not found on disk'',
                     [DocumentQuery doc_id user_id, PathExists (doc_file_path doc)])
                | Some (Inl e) \<Rightarrow>
                    (ErrorEnvelope (''File fetch failed: '' @ str_exn e),
                     [DocumentQuery doc_id user_id, PathExists (doc_file_path doc),
                      FileRead (doc_file_path doc)])
                | Some (Inr content) \<Rightarrow>
                    (FileContent (doc_filename doc) content (doc_file_size doc) (doc_processed doc),
                     [DocumentQuery doc_id user_id, PathExists (doc_file_path doc),
                      FileRead (doc_file_path doc)])))
      | _ \<Rightarrow>
          (ErrorEnvelope (''File fetch failed: '' @ str_exn (no_attribute db ''query'')), []))"

definition file_fetch_handler :: "world \<Rightarrow> kwargs \<Rightarrow> outcome" where
  "file_fetch_handler w kw =
     (case (map_of kw ''db'', map_of kw ''user_id'', map_of kw ''doc_id'') of
        (Some db, Some user_id, Some doc_id) \<Rightarrow> returns (file_fetch_body w db user_id doc_id)
      | _ \<Rightarrow> raises (TypeError ''file_fetch_handler() missing required positional argument''))"

subsection \<open>web_search\<close>

fun py_str :: "world \<Rightarrow> pyval \<Rightarrow> string" where
  "py_str w (PStr s) = s"
| "py_str w (PInt i) = str_int i"
| "py_str w PNone = ''None''"
| "py_str w v = repr_other w v"

definition join :: "string \<Rightarrow> string list \<Rightarrow> string" where
  "join sep xs = (case xs of [] \<Rightarrow> [] | x # rest \<Rightarrow> foldl (\<lambda>acc y. acc @ sep @ y) x rest)"

definition format_result :: "nat \<Rightarrow> (string \<times> string) list \<Rightarrow> string" where
  "format_result i result =
     (let title = (case map_of result ''title'' of Some t \<Rightarrow> t | None \<Rightarrow> ''No title'');
          body = (case map_of result ''body'' of Some b \<Rightarrow> b | None \<Rightarrow> ''No description'');
          link = (case map_of result ''link'' of Some l \<Rightarrow> l | None \<Rightarrow> ''No link'')
      in str_nat i @ ''. '' @ title @ [CHR 0x0A] @ ''   '' @ body @ [CHR 0x0A]
         @ ''   Source: '' @ link @ [CHR 0x0A])"

text \<open>\<open>tools/web_search.py\<close>: the search engine's failure becomes the returned text.\<close>

definition web_search :: "world \<Rightarrow> pyval \<Rightarrow> pyval \<Rightarrow> string" where
  "web_search w query max_results =
     (case ddgs_text w query max_results of
        Inr results \<Rightarrow>
          (if results = [] then ''No results found for: '' @ py_str w query
           else join [CHR 0x0A]
                  ((''Web search results for: '' @ py_str w query @ [CHR 0x0A])
                   # map (\<lambda>(i, result). format_result i result)
                       (zip [1 ..< Suc (length results)] results)))
      | Inl e \<Rightarrow> ''Web search failed: '' @ str_exn e)"

definition web_search_handler :: "world \<Rightarrow> kwargs \<Rightarrow> outcome" where
  "web_search_handler w kw =
     (case map_of kw ''query'' of
        Some query \<Rightarrow>
          (let max_results = (case map_of kw ''max_results'' of None \<Rightarrow> PInt 5 | Some m \<Rightarrow> m)
           in returns (WebResults (web_search w query max_results), [WebQuery query max_results]))
      | None \<Rightarrow> raises (TypeError ''web_search_handler() missing required positional argument''))"

subsection \<open>The gateway\<close>

type_synonym tool_fn = "world \<Rightarrow> kwargs \<Rightarrow> outcome"

definition TOOL_HANDLERS :: "string \<rightharpoonup> tool_fn" where
  "TOOL_HANDLERS =
     map_of [(''vector_search'', vector_search_handler),
             (''sql_query'', sql_query_handler),
             (''http_fetch'', http_fetch_handler),
             (''file_fetch'', file_fetch_handler),
             (''web_search'', web_search_handler)]"

text \<open>
  \<open>{**arguments, **context}\<close> is \<open>context @ arguments\<close>: where both have a key, the pair
  of the context is found first.
\<close>

definition execute_tool :: "world \<Rightarrow> string \<Rightarrow> kwargs \<Rightarrow> kwargs \<Rightarrow> outcome" where
  "execute_tool w tool_name arguments context =
     (case TOOL_HANDLERS tool_name of
        None \<Rightarrow> (Inr (ErrorEnvelope (''Unknown tool: '' @ tool_name)), [])
      | Some handler \<Rightarrow>
          (let kwargs = context @ arguments
           in case handler w kwargs of
                (Inr result, fx) \<Rightarrow> (Inr result, fx)
              | (Inl e, fx) \<Rightarrow>
                  (Inr (ErrorEnvelope (''Tool execution failed: '' @ str_exn e)), fx)))"

section \<open>Agent builder\<close>

record Agent =
  ag_id :: int
  ag_name :: string
  ag_description :: "string option"
  ag_system_prompt :: string
  ag_kb_enabled :: bool
  ag_user_id :: int
  ag_tools :: "string list" \<comment> \<open>the names of \<open>agent.tools\<close>\<close>

record function_tool =
  ft_fn :: tool_fn
  ft_name :: string
  ft_description :: string

record react_agent =
  ra_name :: string
  ra_description :: string
  ra_tools :: "function_tool list"
  ra_system_prompt :: string

text \<open>The closure \<open>tool_fn\<close> that \<open>create_tool_fn(name)\<close> returns.\<close>

definition create_tool_fn :: "Agent \<Rightarrow> int \<Rightarrow> string \<Rightarrow> tool_fn" where
  "create_tool_fn agent user_id name =
     (\<lambda>w kwargs.
        let context = [(''user_id'', PInt user_id), (''agent_id'', PInt (ag_id agent)),
                       (''db'', PSession)]
        in execute_tool w name kwargs context)"

text \<open>
  The knowledge base tool takes \<open>query\<close> and \<open>top_k\<close> only, and nothing catches what the
  search raises.
\<close>

definition vector_search_fn :: "Agent \<Rightarrow> int \<Rightarrow> tool_fn" where
  "vector_search_fn agent user_id =
     (\<lambda>w kwargs.
        if list_ex (\<lambda>kv. fst kv \<noteq> ''query'' \<and> fst kv \<noteq> ''top_k'') kwargs
        then raises (TypeError ''vector_search_fn() got an unexpected keyword argument'')
        else case map_of kwargs ''query'' of
               None \<Rightarrow> raises (TypeError ''vector_search_fn() missing required positional argument'')
             | Some query \<Rightarrow>
                 (let top_k = (case map_of kwargs ''top_k'' of None \<Rightarrow> PInt 5 | Some k \<Rightarrow> k);
                      fx = [VectorQuery (PInt user_id) (PInt (ag_id agent)) query top_k]
                  in case search w (PInt user_id) (PInt (ag_id agent)) query top_k of
                       Inl e \<Rightarrow> (Inl e, fx)
                     | Inr results \<Rightarrow>
                         (Inr (Text (join ([CHR 0x0A, CHR 0x0A] @ ''---'' @ [CHR 0x0A, CHR 0x0A])
                                       (map hit_text results))), fx)))"

text \<open>
  \<open>build_agent\<close>. \<open>lib\<close> is the exception, if any, that the constructors of the LLM client,
  of the tools and of the agent raise.
\<close>

definition build_agent :: "exn option \<Rightarrow> Agent \<Rightarrow> int \<Rightarrow> exn + react_agent" where
  "build_agent lib agent user_id =
     (case lib of
        Some e \<Rightarrow> Inl e
      | None \<Rightarrow>
          (let tools =
                 concat (map (\<lambda>tool_name.
                                case get_tool_definition tool_name of
                                  None \<Rightarrow> []
                                | Some tool_def \<Rightarrow>
                                    [\<lparr>ft_fn = create_tool_fn agent user_id tool_name,
                                      ft_name = td_name tool_def,
                                      ft_description = td_description tool_def\<rparr>])
                             (ag_tools agent));
               kb = (if ag_kb_enabled agent
                     then [\<lparr>ft_fn = vector_search_fn agent user_id,
                            ft_name = ''knowledge_base_search'',
                            ft_description =
                              ''Search the knowledge base for relevant information from uploaded documents.''\<rparr>]
                     else [])
           in Inr \<lparr>ra_name = ag_name agent,
                   ra_description =
                     (case ag_description agent of
                        None \<Rightarrow> ''AI Agent''
                      | Some d \<Rightarrow> if d = [] then ''AI Agent'' else d),
                   ra_tools = tools @ kb,
                   ra_system_prompt = ag_system_prompt agent\<rparr>))"

section \<open>Runs, steps and conversations\<close>

datatype RunStatus = PENDING | RUNNING | COMPLETED | FAILED

fun status_value :: "RunStatus \<Rightarrow> string" where
  "status_value PENDING = ''pending''"
| "status_value RUNNING = ''running''"
| "status_value COMPLETED = ''completed''"
| "status_value FAILED = ''failed''"

datatype StepType = LLM_CALL | TOOL_CALL | TOOL_RESULT | ERROR | FINAL_ANSWER

text \<open>
  The rows, without the columns that the server fills in (\<open>id\<close>, \<open>created_at\<close>,
  \<open>timestamp\<close>); a time is an integer.
\<close>

record Run =
  run_input_text :: string
  run_output_text :: "string option"
  run_status :: RunStatus
  run_error_message :: "string option"
  run_user_id :: int
  run_agent_id :: int
  run_conversation_id :: "int option"
  run_started_at :: "int option"
  run_completed_at :: "int option"

type_synonym json_dict = "(string \<times> string) list"

record RunStep =
  step_run_id :: int
  step_order :: int
  step_type :: StepType
  step_input_data :: "json_dict option"
  step_output_data :: "json_dict option"
  step_tool_name :: "string option"
  step_error_message :: "string option"
  step_duration_ms :: "int option"

record Conversation =
  conv_agent_id :: int
  conv_user_id :: int

record Message =
  msg_conversation_id :: int
  msg_role :: string
  msg_content :: string

text \<open>
  The committed state. \<open>run_steps\<close> and \<open>messages\<close> are in the order of insertion, which is
  the order of their ids; \<open>journal\<close> lists the committed writes of all tables in the order of
  the commits.
\<close>

datatype db_write =
    RunWrite int Run
  | StepWrite RunStep
  | MessageWrite Message

record database =
  runs :: "int \<rightharpoonup> Run"
  agents :: "int \<rightharpoonup> Agent"
  conversations :: "int \<rightharpoonup> Conversation"
  messages :: "Message list"
  run_steps :: "RunStep list"
  journal :: "db_write list"

text \<open>
  The places where the run pipeline calls out and may get an exception back: the commits of
  a status change, the writes of a step or a message, the load of the history and the
  construction of the agent. Each is reached at most once in a run. In \<open>execute_run\<close>, in
  the order of the source: the commit of RUNNING (\<open>StartCommit\<close>),
  \<open>get_conversation_history\<close> (\<open>LoadHistory\<close>), the step with the history length
  (\<open>LogHistory\<close>), the step with the input (\<open>LogInput\<close>), \<open>build_agent\<close> (\<open>BuildAgent\<close>),
  the two calls of \<open>add_message\<close> (\<open>AddUserMessage\<close>, \<open>AddAssistantMessage\<close>), the
  FINAL_ANSWER step (\<open>LogFinalAnswer\<close>), the commit of COMPLETED (\<open>CompleteCommit\<close>), the
  ERROR step and the commit of FAILED in the inner handler (\<open>LogLoopError\<close>, \<open>FailCommit\<close>),
  the commit of FAILED and the ERROR step in the outer handler (\<open>FatalCommit\<close>,
  \<open>LogFatalError\<close>); in \<open>execute_run_async\<close>, the commit of FAILED for a missing agent
  (\<open>AgentMissingCommit\<close>). The reasoning loop is \<open>agent_run\<close>.
\<close>

datatype site =
    StartCommit
  | LoadHistory
  | LogHistory
  | LogInput
  | BuildAgent
  | AddUserMessage
  | AddAssistantMessage
  | LogFinalAnswer
  | CompleteCommit
  | LogLoopError
  | FailCommit
  | FatalCommit
  | LogFatalError
  | AgentMissingCommit

text \<open>
  \<open>fault s\<close> is the exception that the call at \<open>s\<close> raises, if it raises, on a session
  that works (the database refuses the write, the connection is lost, the constructor of the
  agent fails); \<open>utcnow s\<close> is the clock read at \<open>s\<close>; \<open>agent_run\<close> is \<open>llama_agent.run\<close> with the text of its response, taken
  to return or to raise (the loop is the library's, the source puts no bound of its own on
  it); \<open>elapsed_ms\<close> is the measured duration of the loop.
\<close>

record env =
  fault :: "site \<Rightarrow> exn option"
  utcnow :: "site \<Rightarrow> int"
  agent_run :: "react_agent \<Rightarrow> string \<Rightarrow> exn + string"
  elapsed_ms :: int

subsection \<open>The session\<close>

text \<open>
  \<open>execute_run\<close> and the services it calls share one SQLAlchemy \<open>Session\<close>, made by a plain
  \<open>sessionmaker\<close>, and none of them calls \<open>db.rollback()\<close>. When a flush, a commit or a
  query of the session raises, nothing of the unit of work is committed and the transaction
  of the session is left failed: until a rollback, every later query, flush and commit on
  that session raises \<open>PendingRollbackError\<close>. \<open>committed\<close> is the committed state;
  \<open>needs_rollback\<close> tells that a call on the session has raised.
\<close>

record session =
  committed :: database
  needs_rollback :: bool

text \<open>
  \<open>db.commit()\<close> at the site \<open>s\<close>, with the pending changes of the unit of work as a
  function on the committed state.
\<close>

definition db_commit ::
  "env \<Rightarrow> site \<Rightarrow> (database \<Rightarrow> database) \<Rightarrow> session \<Rightarrow> (exn \<times> session) + session" where
  "db_commit e s pending ses =
     (if needs_rollback ses then Inl (PendingRollbackError, ses)
      else case fault e s of
             Some x \<Rightarrow> Inl (x, ses\<lparr>needs_rollback := True\<rparr>)
           | None \<Rightarrow> Inr (ses\<lparr>committed := pending (committed ses)\<rparr>))"

subsection \<open>Database operations\<close>

text \<open>
  The result of an operation is \<open>Inr\<close> with the session after it, or \<open>Inl\<close> with the
  exception raised and the session as the exception leaves it.

  \<open>update_run\<close> is \<open>run = db.query(Run).filter(Run.id == run_id).first()\<close>, assignments to
  attributes of \<open>run\<close>, and \<open>db.commit()\<close>. The query raises on a session that needs a
  rollback and returns otherwise. Without a row \<open>run\<close> is \<open>None\<close> and the first assignment
  raises, which leaves the session as it is. Where the source assigns to the \<open>run\<close> it
  loaded earlier, that is the same row. \<open>log_step\<close> is the function of the source,
  \<open>db.add(step)\<close> and \<open>db.commit()\<close>.
\<close>

definition update_run ::
  "env \<Rightarrow> site \<Rightarrow> int \<Rightarrow> (Run \<Rightarrow> Run) \<Rightarrow> session \<Rightarrow> (exn \<times> session) + session" where
  "update_run e s run_id assign ses =
     (if needs_rollback ses then Inl (PendingRollbackError, ses)
      else case runs (committed ses) run_id of
             None \<Rightarrow> Inl (no_attribute PNone ''status'', ses)
           | Some run \<Rightarrow>
               db_commit e s
                 (\<lambda>db. db\<lparr>runs := (runs db)(run_id \<mapsto> assign run),
                           journal := journal db @ [RunWrite run_id (assign run)]\<rparr>) ses)"

definition log_step ::
  "env \<Rightarrow> site \<Rightarrow> session \<Rightarrow> int \<Rightarrow> int \<Rightarrow> StepType \<Rightarrow> json_dict option \<Rightarrow> json_dict option
     \<Rightarrow> string option \<Rightarrow> string option \<Rightarrow> int option \<Rightarrow> (exn \<times> session) + session" where
  "log_step e s ses run_id step_no type input_data output_data tool_name error_message duration_ms =
     (let step = \<lparr>step_run_id = run_id, step_order = step_no, step_type = type,
                  step_input_data = input_data, step_output_data = output_data,
                  step_tool_name = tool_name, step_error_message = error_message,
                  step_duration_ms = duration_ms\<rparr>
      in db_commit e s
           (\<lambda>db. db\<lparr>run_steps := run_steps db @ [step],
                     journal := journal db @ [StepWrite step]\<rparr>) ses)"

subsection \<open>Conversation service\<close>

definition get_conversation :: "database \<Rightarrow> int \<Rightarrow> int \<Rightarrow> Conversation option" where
  "get_conversation db conversation_id user_id =
     (case conversations db conversation_id of
        None \<Rightarrow> None
      | Some c \<Rightarrow> if conv_user_id c = user_id then Some c else None)"

text \<open>
  \<open>add_message\<close> looks the conversation up, raises 404 by its own guard when there is none
  for the user, which leaves the session as it is, and otherwise adds the message and
  commits.
\<close>

definition add_message ::
  "env \<Rightarrow> site \<Rightarrow> session \<Rightarrow> int \<Rightarrow> int \<Rightarrow> string \<Rightarrow> string \<Rightarrow> (exn \<times> session) + session" where
  "add_message e s ses conversation_id user_id role content =
     (if needs_rollback ses then Inl (PendingRollbackError, ses)
      else case get_conversation (committed ses) conversation_id user_id of
             None \<Rightarrow> Inl (HTTPException 404 ''Conversation not found'', ses)
           | Some conversation \<Rightarrow>
               (let message = \<lparr>msg_conversation_id = conversation_id, msg_role = role,
                               msg_content = content\<rparr>
                in db_commit e s
                     (\<lambda>db. db\<lparr>messages := messages db @ [message],
                               journal := journal db @ [MessageWrite message]\<rparr>) ses))"

text \<open>The history as \<open>(role, content)\<close> pairs, oldest first.\<close>

definition get_conversation_history ::
  "env \<Rightarrow> session \<Rightarrow> int \<Rightarrow> int \<Rightarrow> (exn \<times> session) + (string \<times> string) list" where
  "get_conversation_history e ses conversation_id user_id =
     (if needs_rollback ses then Inl (PendingRollbackError, ses)
      else case fault e LoadHistory of
             Some x \<Rightarrow> Inl (x, ses\<lparr>needs_rollback := True\<rparr>)
           | None \<Rightarrow>
               Inr (case get_conversation (committed ses) conversation_id user_id of
                      None \<Rightarrow> []
                    | Some conversation \<Rightarrow>
                        map (\<lambda>msg. (msg_role msg, msg_content msg))
                          (filter (\<lambda>msg. msg_conversation_id msg = conversation_id)
                             (messages (committed ses)))))"

section \<open>Runner\<close>

text \<open>
  \<open>if conversation_id:\<close> holds for an id that is neither \<open>None\<close> nor 0; \<open>attached\<close> gives
  the id then.
\<close>

definition attached :: "int option \<Rightarrow> int option" where
  "attached conversation_id =
     (case conversation_id of None \<Rightarrow> None | Some c \<Rightarrow> if c = 0 then None else Some c)"

text \<open>
  The text given to the agent: the last ten messages, each as \<open>ROLE: content\<close>, before the
  query. The roles are ASCII words.
\<close>

definition prepare_input :: "(string \<times> string) list \<Rightarrow> string \<Rightarrow> string" where
  "prepare_input history_messages input_text =
     (if history_messages \<noteq> []
      then (let history_text =
                  join [CHR 0x0A, CHR 0x0A]
                    (map (\<lambda>msg. upper (fst msg) @ '': '' @ snd msg)
                       (drop (length history_messages - 10) history_messages))
            in ''Previous conversation:'' @ [CHR 0x0A] @ history_text @ [CHR 0x0A, CHR 0x0A]
               @ ''Current query:'' @ [CHR 0x0A] @ input_text)
      else input_text)"

text \<open>
  The outer \<open>except\<close> block: the query of the run and the commit of FAILED first, the ERROR
  step second, nothing around them. \<open>Inl\<close> is an exception that leaves \<open>execute_run\<close>. The
  block runs on the session of the \<open>try\<close> block: after a database call of the \<open>try\<close> block
  has raised, its first line raises.
\<close>

definition fatal_error ::
  "env \<Rightarrow> int \<Rightarrow> int \<Rightarrow> exn \<Rightarrow> session \<Rightarrow> (exn \<times> session) + session" where
  "fatal_error e run_id step_no x ses =
     (case update_run e FatalCommit run_id
             (\<lambda>run. run\<lparr>run_status := FAILED,
                         run_error_message := Some (''Fatal error: '' @ str_exn x),
                         run_completed_at := Some (utcnow e FatalCommit)\<rparr>) ses of
        Inl raised \<Rightarrow> Inl raised
      | Inr ses1 \<Rightarrow>
          log_step e LogFatalError ses1 run_id step_no ERROR None None None
            (Some (str_exn x)) None)"

text \<open>
  The inner \<open>except\<close> block: the ERROR step first, the status second. It is inside the outer
  \<open>try\<close>, so what it raises goes to \<open>fatal_error\<close>, with the same \<open>step_order\<close> and the
  session as it is then.
\<close>

definition loop_failed ::
  "env \<Rightarrow> int \<Rightarrow> int \<Rightarrow> exn \<Rightarrow> session \<Rightarrow> (exn \<times> session) + session" where
  "loop_failed e run_id step_no agent_error ses =
     (case log_step e LogLoopError ses run_id step_no ERROR None None None
             (Some (str_exn agent_error)) None of
        Inl (x, ses') \<Rightarrow> fatal_error e run_id step_no x ses'
      | Inr ses1 \<Rightarrow>
          (case update_run e FailCommit run_id
                  (\<lambda>run. run\<lparr>run_status := FAILED,
                              run_error_message := Some (str_exn agent_error),
                              run_completed_at := Some (utcnow e FailCommit)\<rparr>) ses1 of
             Inl (x, ses') \<Rightarrow> fatal_error e run_id step_no x ses'
           | Inr ses2 \<Rightarrow> Inr ses2))"

text \<open>The inner \<open>try\<close> block, from the call of the agent to the commit of COMPLETED.\<close>

definition run_agent ::
  "env \<Rightarrow> int \<Rightarrow> string \<Rightarrow> int \<Rightarrow> int option \<Rightarrow> int \<Rightarrow> (string \<times> string) list \<Rightarrow> react_agent
     \<Rightarrow> session \<Rightarrow> (exn \<times> session) + session" where
  "run_agent e run_id input_text user_id conversation_id step_no history_messages llama_agent ses =
     (let full_input = prepare_input history_messages input_text
      in case agent_run e llama_agent full_input of
           Inl x \<Rightarrow> loop_failed e run_id step_no x ses
         | Inr output_text \<Rightarrow>
             (let duration_ms = elapsed_ms e;
                  saved =
                    (case attached conversation_id of
                       Some c \<Rightarrow>
                         (case add_message e AddUserMessage ses c user_id ''user'' input_text of
                            Inl raised \<Rightarrow> Inl raised
                          | Inr ses1 \<Rightarrow>
                              add_message e AddAssistantMessage ses1 c user_id
                                ''assistant'' output_text)
                     | None \<Rightarrow> Inr ses)
              in case saved of
                   Inl (x, ses') \<Rightarrow> loop_failed e run_id step_no x ses'
                 | Inr ses2 \<Rightarrow>
                     (case log_step e LogFinalAnswer ses2 run_id step_no FINAL_ANSWER None
                             (Some [(''answer'', output_text)]) None None (Some duration_ms) of
                        Inl (x, ses') \<Rightarrow> loop_failed e run_id step_no x ses'
                      | Inr ses3 \<Rightarrow>
                          (case update_run e CompleteCommit run_id
                                  (\<lambda>run. run\<lparr>run_status := COMPLETED,
                                              run_output_text := Some output_text,
                                              run_completed_at := Some (utcnow e CompleteCommit)\<rparr>)
                                  ses3 of
                             Inl (x, ses') \<Rightarrow> loop_failed e run_id step_no x ses'
                           | Inr ses4 \<Rightarrow> Inr ses4))))"

text \<open>
  How a call ends: \<open>Inr db\<close> is a return with the committed state \<open>db\<close>; \<open>Inl (x, db)\<close> is
  the exception \<open>x\<close> leaving the call, with the state committed until then.
\<close>

definition leave :: "(exn \<times> session) + session \<Rightarrow> (exn \<times> database) + database" where
  "leave r = (case r of Inl (x, ses) \<Rightarrow> Inl (x, committed ses) | Inr ses \<Rightarrow> Inr (committed ses))"

text \<open>
  \<open>execute_run\<close>: the outer \<open>try\<close> block up to the construction of the agent, each raise
  going to \<open>fatal_error\<close> with the value that \<open>step_order\<close> has at that point. \<open>db\<close> is
  the committed state at the call; the session comes from \<open>execute_run_async\<close>, which has
  read the run and the agent through it, so it needs no rollback then.
\<close>

definition execute_run ::
  "env \<Rightarrow> int \<Rightarrow> Agent \<Rightarrow> string \<Rightarrow> database \<Rightarrow> int \<Rightarrow> int option
     \<Rightarrow> (exn \<times> database) + database" where
  "execute_run e run_id agent input_text db user_id conversation_id =
     leave
       (case update_run e StartCommit run_id
               (\<lambda>run. run\<lparr>run_status := RUNNING,
                           run_started_at := Some (utcnow e StartCommit)\<rparr>)
               \<lparr>committed = db, needs_rollback = False\<rparr> of
          Inl (x, ses') \<Rightarrow> fatal_error e run_id 0 x ses'
        | Inr ses1 \<Rightarrow>
            (case (case attached conversation_id of
                     Some c \<Rightarrow> get_conversation_history e ses1 c user_id
                   | None \<Rightarrow> Inr []) of
               Inl (x, ses') \<Rightarrow> fatal_error e run_id 0 x ses'
             | Inr history_messages \<Rightarrow>
                 (case (if history_messages \<noteq> []
                        then log_step e LogHistory ses1 run_id 0 LLM_CALL
                               (Some [(''conversation_history'',
                                       ''Loaded '' @ str_nat (length history_messages)
                                       @ '' previous messages'')])
                               None None None None
                        else Inr ses1) of
                    Inl (x, ses') \<Rightarrow> fatal_error e run_id 0 x ses'
                  | Inr ses2 \<Rightarrow>
                      (let step_no = (if history_messages \<noteq> [] then 1 else 0)
                       in case log_step e LogInput ses2 run_id step_no LLM_CALL
                                 (Some [(''user_input'', input_text)]) None None None None of
                            Inl (x, ses') \<Rightarrow> fatal_error e run_id step_no x ses'
                          | Inr ses3 \<Rightarrow>
                              (case build_agent (fault e BuildAgent) agent user_id of
                                 Inl x \<Rightarrow> fatal_error e run_id (step_no + 1) x ses3
                               | Inr llama_agent \<Rightarrow>
                                   run_agent e run_id input_text user_id conversation_id
                                     (step_no + 1) history_messages llama_agent ses3)))))"

section \<open>Run service\<close>


section \<open>Streaming\<close>

text \<open>
  The events of the stream, with the data each carries: \<open>status\<close> (status and message),
  \<open>heartbeat\<close> (poll count), \<open>complete\<close> (output), \<open>error\<close> (error text), \<open>timeout\<close>.
\<close>

datatype event =
    StatusEvent RunStatus string
  | HeartbeatEvent nat
  | CompleteEvent "string option"
  | ErrorEvent "string option"
  | TimeoutEvent string

definition max_polls :: nat where
  "max_polls = 120"

text \<open>What follows the \<open>while\<close> loop, reached by its \<open>break\<close>s as well as by its end.\<close>

definition after_loop :: "nat \<Rightarrow> event list" where
  "after_loop poll_count =
     (if poll_count \<ge> max_polls then [TimeoutEvent ''Run execution timeout''] else [])"

text \<open>
  The loop. \<open>observe n\<close> is what \<open>db.refresh(run)\<close> reads at the \<open>n\<close>-th poll, or the
  exception it raises, which the \<open>except\<close> around the whole body turns into an \<open>error\<close> event.
\<close>

function poll_loop :: "(nat \<Rightarrow> exn + Run) \<Rightarrow> nat \<Rightarrow> RunStatus \<Rightarrow> event list" where
  "poll_loop observe poll_count last_status =
     (if poll_count < max_polls
      then (let poll_count' = poll_count + 1
            in case observe poll_count' of
                 Inl x \<Rightarrow> [ErrorEvent (Some (str_exn x))]
               | Inr run \<Rightarrow>
                   (let changed =
                          (if run_status run \<noteq> last_status
                           then [StatusEvent (run_status run)
                                   (''Status: '' @ status_value (run_status run))]
                           else [])
                    in if run_status run = COMPLETED
                       then changed @ [CompleteEvent (run_output_text run)] @ after_loop poll_count'
                       else if run_status run = FAILED
                       then changed @ [ErrorEvent (run_error_message run)] @ after_loop poll_count'
                       else changed
                            @ (if poll_count' mod 10 = 0 then [HeartbeatEvent poll_count'] else [])
                            @ poll_loop observe poll_count' (run_status run)))
      else after_loop poll_count)"
  by pat_completeness auto
termination
  by (relation "measure (\<lambda>(observe, poll_count, last_status). max_polls - poll_count)") auto

declare poll_loop.simps [simp del]

definition stream_run_execution ::
  "database \<Rightarrow> (nat \<Rightarrow> exn + Run) \<Rightarrow> int \<Rightarrow> int \<Rightarrow> event list" where
  "stream_run_execution db observe run_id user_id =
     (case runs db run_id of
        None \<Rightarrow> [ErrorEvent (Some ''Run not found'')]
      | Some run \<Rightarrow>
          (if run_user_id run \<noteq> user_id then [ErrorEvent (Some ''Run not found'')]
           else StatusEvent (run_status run) ''Starting...''
                # poll_loop observe 0 (run_status run)))"

section \<open>Outcomes of a run\<close>

text \<open>The committed state when \<open>execute_run\<close> is left, by return or by exception.\<close>

definition final_db :: "(exn \<times> database) + database \<Rightarrow> database" where
  "final_db r = (case r of Inl (x, db) \<Rightarrow> db | Inr db \<Rightarrow> db)"

text \<open>
  The history that a run loads: the messages of the attached conversation when it exists
  and belongs to the user, nothing otherwise.
\<close>

definition history_of :: "database \<Rightarrow> int \<Rightarrow> int option \<Rightarrow> (string \<times> string) list" where
  "history_of db user_id conversation_id =
     (case attached conversation_id of
        None \<Rightarrow> []
      | Some c \<Rightarrow>
          (case get_conversation db c user_id of
             None \<Rightarrow> []
           | Some conversation \<Rightarrow>
               map (\<lambda>msg. (msg_role msg, msg_content msg))
                 (filter (\<lambda>msg. msg_conversation_id msg = c) (messages db))))"

text \<open>
  No call of the inner \<open>try\<close> block raises: the agent returns an answer, the attached
  conversation, if any, exists and belongs to the user and takes both messages, the
  FINAL_ANSWER step is written and the COMPLETED status is committed.
\<close>

definition loop_succeeds ::
  "env \<Rightarrow> string \<Rightarrow> database \<Rightarrow> int \<Rightarrow> int option \<Rightarrow> (string \<times> string) list
     \<Rightarrow> react_agent \<Rightarrow> bool" where
  "loop_succeeds e input_text db user_id conversation_id history_messages llama_agent =
     ((case agent_run e llama_agent (prepare_input history_messages input_text) of
         Inl x \<Rightarrow> False
       | Inr output_text \<Rightarrow> True)
      \<and> (case attached conversation_id of
            None \<Rightarrow> True
          | Some c \<Rightarrow>
              get_conversation db c user_id \<noteq> None
              \<and> fault e AddUserMessage = None \<and> fault e AddAssistantMessage = None)
      \<and> fault e LogFinalAnswer = None
      \<and> fault e CompleteCommit = None)"

text \<open>No call of the outer \<open>try\<close> block raises, the inner block included.\<close>

definition nothing_raises ::
  "env \<Rightarrow> Agent \<Rightarrow> string \<Rightarrow> database \<Rightarrow> int \<Rightarrow> int option \<Rightarrow> bool" where
  "nothing_raises e agent input_text db user_id conversation_id =
     (fault e StartCommit = None
      \<and> (case attached conversation_id of
            None \<Rightarrow> True
          | Some c \<Rightarrow>
              fault e LoadHistory = None
              \<and> (history_of db user_id conversation_id = [] \<or> fault e LogHistory = None))
      \<and> fault e LogInput = None
      \<and> (case build_agent (fault e BuildAgent) agent user_id of
            Inl x \<Rightarrow> False
          | Inr llama_agent \<Rightarrow>
              loop_succeeds e input_text db user_id conversation_id
                (history_of db user_id conversation_id) llama_agent))"

text \<open>
  \<open>ends_failed base run_id r\<close>: the call returned, the run is FAILED with an error message,
  and an ERROR step of the run is among the steps written since \<open>base\<close>.
\<close>

definition ends_failed :: "database \<Rightarrow> int \<Rightarrow> (exn \<times> database) + database \<Rightarrow> bool" where
  "ends_failed base run_id r =
     (\<exists>db' run'. r = Inr db' \<and> runs db' run_id = Some run'
        \<and> run_status run' = FAILED \<and> run_error_message run' \<noteq> None
        \<and> (\<exists>s \<in> set (drop (length (run_steps base)) (run_steps db')).
              step_run_id s = run_id \<and> step_type s = ERROR))"

text \<open>
  \<open>extends base run_id db\<close>: \<open>db\<close> comes after \<open>base\<close> in the same execution: the run is
  there, steps were only added, the conversations are the same.
\<close>

definition extends :: "database \<Rightarrow> int \<Rightarrow> database \<Rightarrow> bool" where
  "extends base run_id db =
     (runs db run_id \<noteq> None \<and> (\<exists>ys. run_steps db = run_steps base @ ys)
      \<and> conversations db = conversations base)"

text \<open>
  \<open>plain_tail db r\<close>: the steps written between \<open>db\<close> and the end of the call are
  FINAL_ANSWER and ERROR steps without input data.
\<close>

definition plain_tail :: "database \<Rightarrow> (exn \<times> database) + database \<Rightarrow> bool" where
  "plain_tail db r =
     (\<exists>rest. run_steps (final_db r) = run_steps db @ rest
        \<and> (\<forall>s \<in> set rest. step_input_data s = None
               \<and> (step_type s = FINAL_ANSWER \<or> step_type s = ERROR)))"

text \<open>The two turns that a completed run adds to its conversation.\<close>

definition new_turns :: "int option \<Rightarrow> string \<Rightarrow> string \<Rightarrow> Message list" where
  "new_turns conversation_id input_text output_text =
     (case attached conversation_id of
        None \<Rightarrow> []
      | Some c \<Rightarrow>
          [\<lparr>msg_conversation_id = c, msg_role = ''user'', msg_content = input_text\<rparr>,
           \<lparr>msg_conversation_id = c, msg_role = ''assistant'', msg_content = output_text\<rparr>])"



section \<open>Outcomes of a stream\<close>

definition terminal :: "RunStatus \<Rightarrow> bool" where
  "terminal s = (s = COMPLETED \<or> s = FAILED)"

text \<open>The read at a poll succeeds and shows a run that is not terminal.\<close>

definition in_progress :: "(nat \<Rightarrow> exn + Run) \<Rightarrow> nat \<Rightarrow> bool" where
  "in_progress observe i = (case observe i of Inl x \<Rightarrow> False | Inr run \<Rightarrow> \<not> terminal (run_status run))"

text \<open>The events that do not close a stream, and the poll counts of the heartbeats.\<close>

fun progress_event :: "event \<Rightarrow> bool" where
  "progress_event (StatusEvent s m) = True"
| "progress_event (HeartbeatEvent n) = True"
| "progress_event ev = False"

fun heartbeats :: "event list \<Rightarrow> nat list" where
  "heartbeats [] = []"
| "heartbeats (HeartbeatEvent n # evs) = n # heartbeats evs"
| "heartbeats (ev # evs) = heartbeats evs"

text \<open>The event for a run that is read COMPLETED or FAILED.\<close>

definition terminal_event :: "Run \<Rightarrow> event" where
  "terminal_event run =
     (if run_status run = COMPLETED then CompleteEvent (run_output_text run)
      else ErrorEvent (run_error_message run))"

section \<open>Example environments\<close>

text \<open>
  A database that answers \<open>select 1\<close> and has no other relation, one document owned by
  user 2, and no network.
\<close>

definition small_world :: world where
  "small_world =
     \<lparr>db_execute = (\<lambda>q. if q = ''select 1'' then Inr [[(''?column?'', PInt 1)]]
                          else Inl (Error ''relation does not exist'')),
      documents = [7 \<mapsto> \<lparr>doc_filename = ''notes.txt'', doc_file_path = ''/data/notes.txt'',
                           doc_file_size = Some 5, doc_processed = True, doc_user_id = 2\<rparr>],
      bind_other = (\<lambda>v. Inl (Error ''invalid input syntax for type integer'')),
      files = [''/data/notes.txt'' \<mapsto> Inr ''hello''],
      http_send = (\<lambda>method url headers body. Inl (Error ''connection refused'')),
      qdrant_query = (\<lambda>user_id agent_id query top_k. Inr []),
      round3 = (\<lambda>x. x),
      ddgs_text = (\<lambda>query max_results. Inr []),
      repr_other = (\<lambda>v. ''<object>'')\<rparr>"

definition empty_world :: world where
  "empty_world = small_world\<lparr>documents := Map.empty, files := Map.empty\<rparr>"

text \<open>An agent of user 1 whose only tool is \<open>file_fetch\<close>.\<close>

definition support_agent :: Agent where
  "support_agent =
     \<lparr>ag_id = 3, ag_name = ''support'', ag_description = None,
      ag_system_prompt = ''You answer questions about the uploaded notes.'',
      ag_kb_enabled = False, ag_user_id = 1, ag_tools = [''file_fetch'']\<rparr>"

text \<open>
  An environment in which nothing fails and the agent answers \<open>4\<close>; one in which every
  call to the database fails; one in which the LLM fails; one in which only the write of the
  input step fails; one in which only the commit of COMPLETED fails.
\<close>

definition quiet_env :: env where
  "quiet_env = \<lparr>fault = (\<lambda>s. None), utcnow = (\<lambda>s. 1700000000),
                agent_run = (\<lambda>llama_agent user_msg. Inr ''4''), elapsed_ms = 850\<rparr>"

definition down_env :: env where
  "down_env =
     quiet_env\<lparr>fault := (\<lambda>s. Some (Error ''server closed the connection unexpectedly''))\<rparr>"

definition llm_down_env :: env where
  "llm_down_env =
     quiet_env\<lparr>agent_run := (\<lambda>llama_agent user_msg. Inl (Error ''rate limit exceeded''))\<rparr>"

definition step_write_fails_env :: env where
  "step_write_fails_env =
     quiet_env\<lparr>fault := (\<lambda>s. if s = LogInput
                              then Some (Error ''server closed the connection unexpectedly'')
                              else None)\<rparr>"

definition commit_fails_env :: env where
  "commit_fails_env =
     quiet_env\<lparr>fault := (\<lambda>s. if s = CompleteCommit then Some (Error ''deadlock detected'')
                              else None)\<rparr>"

text \<open>
  A database with one pending run of user 1, its agent, an empty conversation of user 1
  (5), a conversation of user 2 (6) and a conversation of user 1 with two messages (8).
\<close>

definition example_run :: Run where
  "example_run =
     \<lparr>run_input_text = ''What is 2+2?'', run_output_text = None, run_status = PENDING,
      run_error_message = None, run_user_id = 1, run_agent_id = 3, run_conversation_id = None,
      run_started_at = None, run_completed_at = None\<rparr>"

definition example_db :: database where
  "example_db =
     \<lparr>runs = [1 \<mapsto> example_run], agents = [3 \<mapsto> support_agent],
      conversations = [5 \<mapsto> \<lparr>conv_agent_id = 3, conv_user_id = 1\<rparr>,
                       6 \<mapsto> \<lparr>conv_agent_id = 9, conv_user_id = 2\<rparr>,
                       8 \<mapsto> \<lparr>conv_agent_id = 3, conv_user_id = 1\<rparr>],
      messages = [\<lparr>msg_conversation_id = 8, msg_role = ''user'', msg_content = ''hi''\<rparr>,
                  \<lparr>msg_conversation_id = 8, msg_role = ''assistant'', msg_content = ''hello''\<rparr>],
      run_steps = [], journal = []\<rparr>"

text \<open>
  A run that is seen RUNNING at the polls 1 to 119 and COMPLETED at poll 120.
\<close>

definition late_finish :: "nat \<Rightarrow> exn + Run" where
  "late_finish n =
     Inr (if n < 120 then example_run\<lparr>run_status := RUNNING\<rparr>
          else example_run\<lparr>run_status := COMPLETED, run_output_text := Some ''4''\<rparr>)"


section \<open>Properties of the tool gateway\<close>

subsection \<open>Strings\<close>

lemma startswith_prefix: "startswith s p = prefix p s"
  by (induction s p rule: startswith.induct) auto

lemma contains_sublist: "contains k s = sublist k s"
  by (induction s) (auto simp: startswith_prefix sublist_Cons_right)

lemma isspace_lower_char: "isspace (lower_char c) = isspace c"
  unfolding isspace_def lower_char_def Let_def
  by auto

lemma lower_strip: "lower (strip q) = strip (lower q)"
proof -
  have comp: "isspace \<circ> lower_char = isspace"
    by (rule ext) (simp add: isspace_lower_char)
  show ?thesis
    by (simp add: lower_def strip_def dropWhile_map rev_map comp)
qed

lemma sublist_dropWhile:
  assumes "k \<noteq> []" and "\<forall>c \<in> set k. \<not> P c" and "sublist k s"
  shows "sublist k (dropWhile P s)"
proof -
  from assms(3) obtain ps ss where s: "s = ps @ k @ ss"
    by (auto simp: sublist_def)
  from assms(1,2) obtain c k' where k: "k = c # k'" and c: "\<not> P c"
    by (cases k) auto
  have "dropWhile P s = dropWhile P ps @ k @ ss"
    unfolding s using k c by (simp add: dropWhile_append)
  then show ?thesis by (auto simp: sublist_def)
qed

text \<open>Trimming neither adds nor removes an occurrence of a word without white space.\<close>

lemma sublist_strip:
  assumes "k \<noteq> []" and "\<forall>c \<in> set k. \<not> isspace c"
  shows "sublist k (strip s) = sublist k s"
proof
  assume "sublist k (strip s)"
  moreover have "sublist (strip s) s"
  proof -
    have "suffix (dropWhile isspace s) s"
      by (rule suffix_dropWhile)
    moreover have "prefix (strip s) (dropWhile isspace s)"
      unfolding strip_def
      by (metis suffix_dropWhile suffix_to_prefix rev_rev_ident)
    ultimately show ?thesis
      by (meson prefix_imp_sublist suffix_imp_sublist sublist_order.order_trans)
  qed
  ultimately show "sublist k s"
    by (rule sublist_order.order_trans)
next
  assume "sublist k s"
  then have "sublist k (dropWhile isspace s)"
    using assms by (intro sublist_dropWhile)
  then have "sublist (rev k) (rev (dropWhile isspace s))"
    by simp
  then have "sublist (rev k) (dropWhile isspace (rev (dropWhile isspace s)))"
    using assms by (intro sublist_dropWhile) auto
  then show "sublist k (strip s)"
    unfolding strip_def by (metis sublist_rev rev_rev_ident)
qed

lemma dangerous_no_space: "k \<in> set dangerous \<Longrightarrow> k \<noteq> [] \<and> (\<forall>c \<in> set k. \<not> isspace c)"
  by (auto simp: dangerous_def isspace_def)

lemma dangerous_in_query:
  "list_ex (\<lambda>keyword. contains keyword (lower (strip q))) dangerous
     = (\<exists>k \<in> set dangerous. sublist k (lower q))"
  using dangerous_no_space
  by (auto simp: list_ex_iff contains_sublist lower_strip sublist_strip)

subsection \<open>sql_query\<close>

text \<open>
  C3, amended. For every query string, \<open>sql_query\<close> returns \<open>{error: ...}\<close> without
  executing anything unless the query, trimmed and lowercased, begins with \<open>select\<close>; it also
  returns \<open>{error: ...}\<close> without executing anything if the lowercased query contains one of
  \<open>insert, update, delete, drop, alter, create, truncate\<close> anywhere; otherwise the query, as
  given, is executed once, and the result is the list of row mappings with its length when
  the execution succeeds and \<open>{error: "SQL query failed: ..."}\<close> when the execution raises.
\<close>

theorem sql_query_policy:
  assumes "map_of kw ''db'' = Some PSession" and "map_of kw ''query'' = Some (PStr q)"
  shows "sql_query_handler w kw =
     (if \<not> prefix ''select'' (lower (strip q))
      then (Inr (ErrorEnvelope ''Only SELECT queries are allowed''), [])
      else if \<exists>k \<in> set dangerous. sublist k (lower q)
      then (Inr (ErrorEnvelope ''Query contains forbidden keywords''), [])
      else (case db_execute w q of
              Inr rows \<Rightarrow> (Inr (SqlRows rows (int (length rows))), [SqlExecute q])
            | Inl e \<Rightarrow> (Inr (ErrorEnvelope (''SQL query failed: '' @ str_exn e)), [SqlExecute q])))"
  using assms
  by (simp add: sql_query_handler_def sql_query_body_def returns_def Let_def
        startswith_prefix dangerous_in_query split: sum.splits)

text \<open>The policy at \<open>select 1\<close>: one row comes back.\<close>

theorem sql_query_policy_witness:
  "sql_query_handler small_world [(''db'', PSession), (''query'', PStr ''select 1'')]
     = (Inr (SqlRows [[(''?column?'', PInt 1)]] 1), [SqlExecute ''select 1''])"
  using sql_query_policy
          [of "[(''db'', PSession), (''query'', PStr ''select 1'')]" "''select 1''" small_world]
  by (simp add: small_world_def startswith_prefix [symmetric] contains_sublist [symmetric]
        lower_def strip_def lower_char_def isspace_def dangerous_def)

text \<open>
  C3 as stated fails: a query that passes both checks and names a relation that does not
  exist is executed, and what comes back is an error envelope, not rows with a count.
\<close>

theorem sql_query_counterexample:
  "sql_query_handler small_world
     [(''db'', PSession), (''query'', PStr ''select * from missing'')]
     = (Inr (ErrorEnvelope ''SQL query failed: relation does not exist''),
        [SqlExecute ''select * from missing''])"
  by (simp add: sql_query_handler_def sql_query_body_def returns_def small_world_def
        lower_def strip_def lower_char_def isspace_def dangerous_def)

subsection \<open>execute_tool\<close>

lemma http_fetch_transport_failure:
  assumes "map_of kw ''url'' = Some url" and "map_of kw ''method'' = None"
    and "http_send w ''GET'' url (case map_of kw ''headers'' of None \<Rightarrow> PNone | Some h \<Rightarrow> h) PNone = Inl e"
  shows "http_fetch_handler w kw
           = (Inr (ErrorEnvelope (''HTTP request failed: '' @ str_exn e)), [HttpSend ''GET'' url])"
  using assms
  by (simp add: http_fetch_handler_def http_fetch_body_def returns_def http_result_def
        upper_def upper_char_def char_of_def bit_Suc_0_iff)

lemma TOOL_HANDLERS_http_fetch: "TOOL_HANDLERS ''http_fetch'' = Some http_fetch_handler"
  by (simp add: TOOL_HANDLERS_def)

text \<open>
  C4. For every tool name, argument map and context map, \<open>execute_tool\<close> returns and does
  not raise; a name without a handler gives \<open>{error: "Unknown tool: name"}\<close>; an exception that
  a handler raises comes back as \<open>{error: "Tool execution failed: message"}\<close>; and a transport
  failure of \<open>http_fetch\<close> comes back as \<open>{error: "HTTP request failed: message"}\<close>.
\<close>

theorem execute_tool_never_raises:
  "(\<exists>result fx. execute_tool w tool_name arguments context = (Inr result, fx))
   \<and> (TOOL_HANDLERS tool_name = None \<longrightarrow>
        execute_tool w tool_name arguments context
          = (Inr (ErrorEnvelope (''Unknown tool: '' @ tool_name)), []))
   \<and> (\<forall>handler e fx.
        TOOL_HANDLERS tool_name = Some handler \<and> handler w (context @ arguments) = (Inl e, fx) \<longrightarrow>
        execute_tool w tool_name arguments context
          = (Inr (ErrorEnvelope (''Tool execution failed: '' @ str_exn e)), fx))
   \<and> (\<forall>url e.
        tool_name = ''http_fetch'' \<and> map_of (context @ arguments) ''url'' = Some url
        \<and> map_of (context @ arguments) ''method'' = None
        \<and> http_send w ''GET'' url
             (case map_of (context @ arguments) ''headers'' of None \<Rightarrow> PNone | Some h \<Rightarrow> h) PNone = Inl e \<longrightarrow>
        execute_tool w tool_name arguments context
          = (Inr (ErrorEnvelope (''HTTP request failed: '' @ str_exn e)), [HttpSend ''GET'' url]))"
proof (intro conjI allI impI)
  show "\<exists>result fx. execute_tool w tool_name arguments context = (Inr result, fx)"
    by (simp add: execute_tool_def Let_def split: option.splits prod.splits sum.splits)
next
  assume "TOOL_HANDLERS tool_name = None"
  then show "execute_tool w tool_name arguments context
               = (Inr (ErrorEnvelope (''Unknown tool: '' @ tool_name)), [])"
    by (simp add: execute_tool_def)
next
  fix handler e fx
  assume "TOOL_HANDLERS tool_name = Some handler \<and> handler w (context @ arguments) = (Inl e, fx)"
  then show "execute_tool w tool_name arguments context
               = (Inr (ErrorEnvelope (''Tool execution failed: '' @ str_exn e)), fx)"
    by (simp add: execute_tool_def Let_def)
next
  fix url e
  assume h: "tool_name = ''http_fetch'' \<and> map_of (context @ arguments) ''url'' = Some url
        \<and> map_of (context @ arguments) ''method'' = None
        \<and> http_send w ''GET'' url
             (case map_of (context @ arguments) ''headers'' of None \<Rightarrow> PNone | Some h \<Rightarrow> h) PNone = Inl e"
  then have "http_fetch_handler w (context @ arguments)
               = (Inr (ErrorEnvelope (''HTTP request failed: '' @ str_exn e)), [HttpSend ''GET'' url])"
    by (intro http_fetch_transport_failure) blast+
  with h show "execute_tool w tool_name arguments context
               = (Inr (ErrorEnvelope (''HTTP request failed: '' @ str_exn e)), [HttpSend ''GET'' url])"
    by (simp add: execute_tool_def Let_def TOOL_HANDLERS_http_fetch)
qed

text \<open>
  An unknown tool, a handler called without its required argument, and a fetch from a host
  that cannot be reached.
\<close>

theorem execute_tool_never_raises_witness:
  "execute_tool small_world ''shell'' [] []
     = (Inr (ErrorEnvelope ''Unknown tool: shell''), [])
   \<and> execute_tool small_world ''sql_query'' [] [(''db'', PSession)]
     = (Inr (ErrorEnvelope
          ''Tool execution failed: sql_query_handler() missing required positional argument''), [])
   \<and> execute_tool small_world ''http_fetch'' [(''url'', PStr ''http://unreachable.invalid/'')]
       []
     = (Inr (ErrorEnvelope ''HTTP request failed: connection refused''),
        [HttpSend ''GET'' (PStr ''http://unreachable.invalid/'')])"
proof (intro conjI)
  show "execute_tool small_world ''shell'' [] []
     = (Inr (ErrorEnvelope ''Unknown tool: shell''), [])"
    using execute_tool_never_raises [of small_world "''shell''" "[]" "[]"]
    by (simp add: TOOL_HANDLERS_def)
  show "execute_tool small_world ''sql_query'' [] [(''db'', PSession)]
     = (Inr (ErrorEnvelope
          ''Tool execution failed: sql_query_handler() missing required positional argument''), [])"
    using execute_tool_never_raises
            [of small_world "''sql_query''" "[]" "[(''db'', PSession)]"]
    by (simp add: TOOL_HANDLERS_def sql_query_handler_def raises_def)
  show "execute_tool small_world ''http_fetch'' [(''url'', PStr ''http://unreachable.invalid/'')]
          []
     = (Inr (ErrorEnvelope ''HTTP request failed: connection refused''),
        [HttpSend ''GET'' (PStr ''http://unreachable.invalid/'')])"
    using execute_tool_never_raises
            [of small_world "''http_fetch''" "[(''url'', PStr ''http://unreachable.invalid/'')]"
                "[]"]
    by (simp add: small_world_def)
qed

subsection \<open>file_fetch\<close>

text \<open>
  C8. For every caller and every document id, \<open>file_fetch\<close> answers a document that does
  not exist and a document that another user owns with the same envelope and the same
  outside calls: \<open>{error: "Document not found or access denied"}\<close> after one query.
\<close>

theorem file_fetch_owner_isolation:
  assumes "map_of kw ''db'' = Some PSession"
    and "map_of kw ''user_id'' = Some (PInt user_id)"
    and "map_of kw ''doc_id'' = Some (PInt doc_id)"
    and "documents w1 doc_id = None"
    and "documents w2 doc_id = Some doc"
    and "doc_user_id doc \<noteq> user_id"
  shows "file_fetch_handler w1 kw = file_fetch_handler w2 kw
         \<and> file_fetch_handler w2 kw
             = (Inr (ErrorEnvelope ''Document not found or access denied''),
                [DocumentQuery (PInt doc_id) (PInt user_id)])"
  using assms
  by (simp add: file_fetch_handler_def file_fetch_body_def query_document_def bind_param_def
        returns_def)

text \<open>User 1 asks for document 7, which user 2 owns, and for the same id where no document is.\<close>

theorem file_fetch_owner_isolation_witness:
  "file_fetch_handler empty_world [(''db'', PSession), (''user_id'', PInt 1), (''doc_id'', PInt 7)]
     = file_fetch_handler small_world [(''db'', PSession), (''user_id'', PInt 1), (''doc_id'', PInt 7)]
   \<and> file_fetch_handler small_world [(''db'', PSession), (''user_id'', PInt 1), (''doc_id'', PInt 7)]
     = (Inr (ErrorEnvelope ''Document not found or access denied''),
        [DocumentQuery (PInt 7) (PInt 1)])"
  using file_fetch_owner_isolation
          [of "[(''db'', PSession), (''user_id'', PInt 1), (''doc_id'', PInt 7)]" 1 7
              empty_world small_world
              "\<lparr>doc_filename = ''notes.txt'', doc_file_path = ''/data/notes.txt'',
                doc_file_size = Some 5, doc_processed = True, doc_user_id = 2\<rparr>"]
  by (simp add: empty_world_def small_world_def)

subsection \<open>Trusted context\<close>

lemma get_tool_definition_name: "get_tool_definition n = Some d \<Longrightarrow> td_name d = n"
  by (auto simp: get_tool_definition_def TOOL_DEFINITIONS_def split: if_splits)

lemma build_agent_tools:
  assumes "build_agent lib agent user_id = Inr ra" and "t \<in> set (ra_tools ra)"
    and "ft_name t \<noteq> ''knowledge_base_search''"
  shows "ft_fn t = create_tool_fn agent user_id (ft_name t)"
proof (cases lib)
  case (Some e)
  with assms(1) show ?thesis by (simp add: build_agent_def)
next
  case None
  with assms show ?thesis
    by (auto simp: build_agent_def Let_def get_tool_definition_name split: option.splits if_splits)
qed

lemma handler_reads_map:
  assumes "TOOL_HANDLERS n = Some handler" and "map_of kw' = map_of kw"
  shows "handler w kw' = handler w kw"
proof -
  from assms(1) consider "handler = vector_search_handler" | "handler = sql_query_handler"
    | "handler = http_fetch_handler" | "handler = file_fetch_handler"
    | "handler = web_search_handler"
    by (auto simp: TOOL_HANDLERS_def split: if_splits)
  then show ?thesis
  proof cases
    case 1
    show ?thesis unfolding 1 vector_search_handler_def assms(2) by (rule refl)
  next
    case 2
    show ?thesis unfolding 2 sql_query_handler_def assms(2) by (rule refl)
  next
    case 3
    show ?thesis unfolding 3 http_fetch_handler_def assms(2) by (rule refl)
  next
    case 4
    show ?thesis unfolding 4 file_fetch_handler_def assms(2) by (rule refl)
  next
    case 5
    show ?thesis unfolding 5 web_search_handler_def assms(2) by (rule refl)
  qed
qed

lemma execute_tool_reads_map:
  assumes "map_of (context @ arguments') = map_of (context @ arguments)"
  shows "execute_tool w n arguments' context = execute_tool w n arguments context"
proof (cases "TOOL_HANDLERS n")
  case None
  then show ?thesis by (simp add: execute_tool_def)
next
  case (Some handler)
  then show ?thesis
    using handler_reads_map [OF Some assms, of w]
    by (simp add: execute_tool_def Let_def)
qed

text \<open>
  C9. Every tool of an agent built by \<open>build_agent\<close>, the knowledge base tool apart, calls
  the gateway with the context of the run; in the merged arguments the keys \<open>user_id\<close>,
  \<open>agent_id\<close> and \<open>db\<close> hold the values of the context whatever the LLM supplied for them;
  and two argument maps that differ only on these keys give the same invocation.
\<close>

theorem context_overrides_arguments:
  assumes "build_agent lib agent user_id = Inr ra" and "t \<in> set (ra_tools ra)"
    and "ft_name t \<noteq> ''knowledge_base_search''"
    and "\<forall>k. k \<notin> {''user_id'', ''agent_id'', ''db''} \<longrightarrow> map_of kwargs' k = map_of kwargs k"
  shows "ft_fn t w kwargs
           = execute_tool w (ft_name t) kwargs
               [(''user_id'', PInt user_id), (''agent_id'', PInt (ag_id agent)), (''db'', PSession)]
         \<and> map_of ([(''user_id'', PInt user_id), (''agent_id'', PInt (ag_id agent)),
                     (''db'', PSession)] @ kwargs) ''user_id'' = Some (PInt user_id)
         \<and> map_of ([(''user_id'', PInt user_id), (''agent_id'', PInt (ag_id agent)),
                     (''db'', PSession)] @ kwargs) ''agent_id'' = Some (PInt (ag_id agent))
         \<and> map_of ([(''user_id'', PInt user_id), (''agent_id'', PInt (ag_id agent)),
                     (''db'', PSession)] @ kwargs) ''db'' = Some PSession
         \<and> ft_fn t w kwargs' = ft_fn t w kwargs"
proof -
  have fn: "ft_fn t = create_tool_fn agent user_id (ft_name t)"
    using assms(1-3) by (rule build_agent_tools)
  have same: "map_of ([(''user_id'', PInt user_id), (''agent_id'', PInt (ag_id agent)),
                       (''db'', PSession)] @ kwargs')
            = map_of ([(''user_id'', PInt user_id), (''agent_id'', PInt (ag_id agent)),
                       (''db'', PSession)] @ kwargs)"
    using assms(4) by (intro ext) simp
  show ?thesis
    using execute_tool_reads_map [OF same, of w "ft_name t"]
    by (simp add: fn create_tool_fn_def)
qed

text \<open>
  The LLM asks for document 7 and adds \<open>user_id = 2\<close>, the owner: the query is made for
  user 1 all the same.
\<close>

theorem context_overrides_arguments_witness:
  "ft_fn (hd (ra_tools (projr (build_agent None support_agent 1)))) small_world
     [(''doc_id'', PInt 7), (''user_id'', PInt 2)]
   = ft_fn (hd (ra_tools (projr (build_agent None support_agent 1)))) small_world
       [(''doc_id'', PInt 7)]
   \<and> ft_fn (hd (ra_tools (projr (build_agent None support_agent 1)))) small_world
       [(''doc_id'', PInt 7), (''user_id'', PInt 2)]
     = (Inr (ErrorEnvelope ''Document not found or access denied''),
        [DocumentQuery (PInt 7) (PInt 1)])"
proof -
  define ra where "ra = projr (build_agent None support_agent 1)"
  have b: "build_agent None support_agent 1 = Inr ra"
    by (simp add: ra_def build_agent_def)
  have t: "hd (ra_tools ra) \<in> set (ra_tools ra)"
    by (simp add: ra_def build_agent_def support_agent_def get_tool_definition_def
        TOOL_DEFINITIONS_def Let_def)
  have n: "ft_name (hd (ra_tools ra)) \<noteq> ''knowledge_base_search''"
    by (simp add: ra_def build_agent_def support_agent_def get_tool_definition_def
        TOOL_DEFINITIONS_def Let_def)
  have k: "\<forall>k. k \<notin> {''user_id'', ''agent_id'', ''db''} \<longrightarrow>
             map_of [(''doc_id'', PInt 7)] k = map_of [(''doc_id'', PInt 7), (''user_id'', PInt 2)] k"
    by simp
  have r: "execute_tool small_world (ft_name (hd (ra_tools ra)))
             [(''doc_id'', PInt 7), (''user_id'', PInt 2)]
             [(''user_id'', PInt 1), (''agent_id'', PInt (ag_id support_agent)), (''db'', PSession)]
           = (Inr (ErrorEnvelope ''Document not found or access denied''),
              [DocumentQuery (PInt 7) (PInt 1)])"
    by (simp add: ra_def build_agent_def support_agent_def get_tool_definition_def
        TOOL_DEFINITIONS_def Let_def execute_tool_def TOOL_HANDLERS_def file_fetch_handler_def
        file_fetch_body_def query_document_def bind_param_def returns_def small_world_def)
  show ?thesis
    using context_overrides_arguments [OF b t n k, of small_world] r
    unfolding ra_def by simp
qed

section \<open>Properties of the run pipeline\<close>

lemmas run_defs = execute_run_def run_agent_def loop_failed_def fatal_error_def update_run_def
  log_step_def db_commit_def leave_def add_message_def get_conversation_history_def
  get_conversation_def attached_def build_agent_def prepare_input_def final_db_def Let_def

lemmas example_defs = quiet_env_def down_env_def llm_down_env_def step_write_fails_env_def
  commit_fails_env_def example_run_def example_db_def

subsection \<open>A session that needs a rollback\<close>

text \<open>
  An operation that raises commits nothing. A refused write leaves the session in need of
  a rollback, and on such a session both handlers raise at their first database call,
  before they have written anything.
\<close>

lemma db_commit_raised:
  "db_commit e s w ses = Inl (x, ses') \<Longrightarrow> needs_rollback ses' \<and> committed ses' = committed ses"
  by (auto simp: db_commit_def split: if_splits option.splits)

lemma log_step_raised:
  "log_step e s ses r n t i out tn em d = Inl (x, ses')
     \<Longrightarrow> needs_rollback ses' \<and> committed ses' = committed ses"
  by (auto simp: log_step_def Let_def dest: db_commit_raised)

lemma update_run_raised:
  "update_run e s run_id f ses = Inl (x, ses') \<Longrightarrow> committed ses' = committed ses"
  by (auto simp: update_run_def split: if_splits option.splits dest: db_commit_raised)


lemma add_message_raised:
  "add_message e s ses c u role content = Inl (x, ses') \<Longrightarrow> committed ses' = committed ses"
  by (auto simp: add_message_def Let_def split: if_splits option.splits dest: db_commit_raised)



lemma final_db_leave [simp]:
  "final_db (leave (Inl (x, ses))) = committed ses"
  "final_db (leave (Inr ses)) = committed ses"
  by (simp_all add: final_db_def leave_def)

lemma get_conversation_frame [simp]:
  "get_conversation (db\<lparr>runs := r\<rparr>) c u = get_conversation db c u"
  "get_conversation (db\<lparr>journal := j\<rparr>) c u = get_conversation db c u"
  "get_conversation (db\<lparr>run_steps := s\<rparr>) c u = get_conversation db c u"
  "get_conversation (db\<lparr>messages := m\<rparr>) c u = get_conversation db c u"
  by (simp_all add: get_conversation_def)

subsection \<open>Terminal status\<close>

text \<open>
  C1 fails on the code. The run is PENDING; the commit of RUNNING goes through; the write
  of the input step raises (the connection is lost). The exception reaches the outer
  handler, whose first line queries the run on the same session. No rollback was issued,
  so the query raises \<open>PendingRollbackError\<close>, and that exception leaves \<open>execute_run\<close>:
  the run stays RUNNING, without error message, and no ERROR step is recorded.
\<close>

theorem execute_run_left_running:
  "execute_run step_write_fails_env 1 support_agent ''What is 2+2?'' example_db 1 None
     = Inl (PendingRollbackError,
            example_db\<lparr>runs := [1 \<mapsto> example_run\<lparr>run_status := RUNNING,
                                                    run_started_at := Some 1700000000\<rparr>],
                       journal := [RunWrite 1 (example_run\<lparr>run_status := RUNNING,
                                                             run_started_at := Some 1700000000\<rparr>)]\<rparr>)
   \<and> run_status example_run = PENDING
   \<and> map_option run_status
        (runs (final_db (execute_run step_write_fails_env 1 support_agent ''What is 2+2?''
                           example_db 1 None)) 1)
       = Some RUNNING
   \<and> map_option run_error_message
        (runs (final_db (execute_run step_write_fails_env 1 support_agent ''What is 2+2?''
                           example_db 1 None)) 1)
       = Some None
   \<and> run_steps (final_db (execute_run step_write_fails_env 1 support_agent ''What is 2+2?''
                             example_db 1 None))
       = []"
  by (simp add: run_defs example_defs)

text \<open>
  So it is for every exception that the write of the input step raises, on every run
  without conversation.
\<close>

lemma refused_write_escapes:
  assumes run: "runs db run_id = Some run"
    and start: "fault e StartCommit = None"
    and det: "attached conversation_id = None"
    and refused: "fault e LogInput = Some x"
  shows "execute_run e run_id agent input_text db user_id conversation_id
           = Inl (PendingRollbackError,
                  db\<lparr>runs := (runs db)(run_id \<mapsto> run\<lparr>run_status := RUNNING,
                         run_started_at := Some (utcnow e StartCommit)\<rparr>),
                       journal := journal db @ [RunWrite run_id (run\<lparr>run_status := RUNNING,
                         run_started_at := Some (utcnow e StartCommit)\<rparr>)]\<rparr>)"
  using assms
  by (simp add: execute_run_def update_run_def log_step_def db_commit_def fatal_error_def
      leave_def Let_def)

text \<open>
  The handlers do what C1 says on a session that works. When no call to the database raises
  (the agent may fail to build, the reasoning loop may raise, the attached conversation may
  be missing or belong to another user), \<open>execute_run\<close> returns, the run ends COMPLETED
  when nothing raised, and otherwise FAILED with its error message set and a new ERROR step
  recorded for it.
\<close>

lemma fatal_error_ends_failed:
  assumes "extends base run_id (committed ses)" and "\<not> needs_rollback ses"
    and "fault e FatalCommit = None" and "fault e LogFatalError = None"
  shows "ends_failed base run_id (leave (fatal_error e run_id n x ses))"
  using assms
  by (auto simp: extends_def ends_failed_def fatal_error_def update_run_def log_step_def
      db_commit_def leave_def Let_def)

lemma loop_failed_ends_failed:
  assumes "extends base run_id (committed ses)" and "\<not> needs_rollback ses"
    and "fault e LogLoopError = None" and "fault e FailCommit = None"
  shows "ends_failed base run_id (leave (loop_failed e run_id n x ses))"
  using assms
  by (auto simp: extends_def ends_failed_def loop_failed_def update_run_def log_step_def
      db_commit_def leave_def Let_def)

lemma run_agent_outcome:
  assumes ext: "extends base run_id (committed ses)" and clean: "\<not> needs_rollback ses"
    and all: "\<forall>s. s \<noteq> BuildAgent \<longrightarrow> fault e s = None"
  shows "if loop_succeeds e input_text (committed ses) user_id conversation_id history_messages
              llama_agent
         then (\<exists>db' run'. leave (run_agent e run_id input_text user_id conversation_id n
                                    history_messages llama_agent ses) = Inr db'
                 \<and> runs db' run_id = Some run' \<and> run_status run' = COMPLETED)
         else ends_failed base run_id
                (leave (run_agent e run_id input_text user_id conversation_id n history_messages
                   llama_agent ses))"
proof (cases "agent_run e llama_agent (prepare_input history_messages input_text)")
  case (Inl x)
  have works: "fault e s = None" if "s \<noteq> BuildAgent" for s
    using all that by simp
  have lf: "ends_failed base run_id (leave (loop_failed e run_id n y ses))" for y
    by (rule loop_failed_ends_failed [OF ext clean]) (simp_all add: works)
  from Inl show ?thesis
    using lf by (simp add: run_agent_def loop_succeeds_def Let_def)
next
  case (Inr output_text)
  have works: "fault e s = None" if "s \<noteq> BuildAgent" for s
    using all that by simp
  have lf: "ends_failed base run_id (leave (loop_failed e run_id n y ses))" for y
    by (rule loop_failed_ends_failed [OF ext clean]) (simp_all add: works)
  from ext obtain run where run: "runs (committed ses) run_id = Some run"
    by (auto simp: extends_def)
  show ?thesis
  proof (cases "attached conversation_id")
    case None
    then show ?thesis
      using Inr run clean
      by (simp add: run_agent_def loop_succeeds_def update_run_def log_step_def db_commit_def
          leave_def works Let_def)
  next
    case (Some c)
    show ?thesis
    proof (cases "get_conversation (committed ses) c user_id")
      case None
      then have "run_agent e run_id input_text user_id conversation_id n history_messages
                   llama_agent ses
                 = loop_failed e run_id n (HTTPException 404 ''Conversation not found'') ses"
        using Inr Some clean by (simp add: run_agent_def add_message_def Let_def)
      then show ?thesis
        using lf None by (simp add: loop_succeeds_def Some Inr)
    next
      case conv: (Some conversation)
      then show ?thesis
        using Inr run clean Some
        by (simp add: run_agent_def loop_succeeds_def update_run_def log_step_def
            add_message_def db_commit_def leave_def works Let_def)
    qed
  qed
qed

lemma execute_run_outcome:
  assumes run: "runs db run_id = Some run"
    and all: "\<forall>s. s \<noteq> BuildAgent \<longrightarrow> fault e s = None"
  shows "if nothing_raises e agent input_text db user_id conversation_id
         then (\<exists>db' run'. execute_run e run_id agent input_text db user_id conversation_id = Inr db'
                 \<and> runs db' run_id = Some run' \<and> run_status run' = COMPLETED)
         else ends_failed db run_id
                (execute_run e run_id agent input_text db user_id conversation_id)"
    (is "if ?smooth then ?completed else ends_failed db run_id ?result")
proof -
  have works: "fault e s = None" if "s \<noteq> BuildAgent" for s
    using all that by simp
  define hist where "hist = history_of db user_id conversation_id"
  define db1 where "db1 = db\<lparr>runs := (runs db)(run_id \<mapsto> run\<lparr>run_status := RUNNING,
                         run_started_at := Some (utcnow e StartCommit)\<rparr>),
                       journal := journal db @ [RunWrite run_id (run\<lparr>run_status := RUNNING,
                         run_started_at := Some (utcnow e StartCommit)\<rparr>)]\<rparr>"
  define ses1 where "ses1 = \<lparr>committed = db1, needs_rollback = False\<rparr>"
  have u: "update_run e StartCommit run_id
             (\<lambda>run. run\<lparr>run_status := RUNNING,
                         run_started_at := Some (utcnow e StartCommit)\<rparr>)
             \<lparr>committed = db, needs_rollback = False\<rparr> = Inr ses1"
    by (simp add: update_run_def db_commit_def run works db1_def ses1_def)
  have h: "(case attached conversation_id of
              Some c \<Rightarrow> get_conversation_history e ses1 c user_id
            | None \<Rightarrow> Inr []) = Inr hist"
    by (simp add: get_conversation_history_def works hist_def history_of_def db1_def ses1_def
        get_conversation_def split: option.splits)
  define info where "info = \<lparr>step_run_id = run_id, step_order = 0, step_type = LLM_CALL,
                         step_input_data =
                           Some [(''conversation_history'',
                                  ''Loaded '' @ str_nat (length hist) @ '' previous messages'')],
                         step_output_data = None, step_tool_name = None,
                         step_error_message = None, step_duration_ms = None\<rparr>"
  define n where "n = (if hist \<noteq> [] then 1 else 0 :: int)"
  define inp where "inp = \<lparr>step_run_id = run_id, step_order = n, step_type = LLM_CALL,
                    step_input_data = Some [(''user_input'', input_text)],
                    step_output_data = None, step_tool_name = None,
                    step_error_message = None, step_duration_ms = None\<rparr>"
  define db2 where "db2 = (if hist \<noteq> [] then db1\<lparr>run_steps := run_steps db1 @ [info],
                              journal := journal db1 @ [StepWrite info]\<rparr> else db1)"
  define ses2 where "ses2 = \<lparr>committed = db2, needs_rollback = False\<rparr>"
  define db3 where "db3 = db2\<lparr>run_steps := run_steps db2 @ [inp],
                              journal := journal db2 @ [StepWrite inp]\<rparr>"
  define ses3 where "ses3 = \<lparr>committed = db3, needs_rollback = False\<rparr>"
  have l1: "(if hist \<noteq> []
                      then log_step e LogHistory ses1 run_id 0 LLM_CALL
                             (Some [(''conversation_history'',
                                     ''Loaded '' @ str_nat (length hist)
                                     @ '' previous messages'')])
                             None None None None
                      else Inr ses1) = Inr ses2"
    by (simp add: log_step_def db_commit_def works db2_def info_def ses1_def ses2_def Let_def)
  have l2: "log_step e LogInput ses2 run_id n LLM_CALL
                               (Some [(''user_input'', input_text)]) None None None None = Inr ses3"
    by (simp add: log_step_def db_commit_def works db3_def inp_def ses2_def ses3_def Let_def)
  have eq: "?result
              = leave (case build_agent (fault e BuildAgent) agent user_id of
                               Inl x \<Rightarrow> fatal_error e run_id (n + 1) x ses3
                             | Inr llama_agent \<Rightarrow>
                                 run_agent e run_id input_text user_id conversation_id
                                   (n + 1) hist llama_agent ses3)"
    unfolding execute_run_def u h l1 Let_def sum.case option.case n_def [symmetric] l2
    by (rule refl)
  have ext: "extends db run_id (committed ses3)"
    by (simp add: extends_def ses3_def db3_def db2_def db1_def)
  have clean: "\<not> needs_rollback ses3"
    by (simp add: ses3_def)
  have conv: "get_conversation (committed ses3) c user_id = get_conversation db c user_id" for c
    by (simp add: get_conversation_def ses3_def db3_def db2_def db1_def)
  have pre: "?smooth
               = (case build_agent (fault e BuildAgent) agent user_id of
                    Inl x \<Rightarrow> False
                  | Inr llama_agent \<Rightarrow>
                      loop_succeeds e input_text (committed ses3) user_id conversation_id hist
                        llama_agent)"
    unfolding hist_def
    by (simp add: nothing_raises_def loop_succeeds_def works conv
        cong: option.case_cong sum.case_cong split: option.splits)
  show ?thesis
  proof (cases "build_agent (fault e BuildAgent) agent user_id")
    case (Inl x)
    have "ends_failed db run_id (leave (fatal_error e run_id (n + 1) x ses3))"
      by (rule fatal_error_ends_failed [OF ext clean]) (simp_all add: works)
    with Inl show ?thesis
      by (simp add: eq pre)
  next
    case la: (Inr llama_agent)
    show ?thesis
      using run_agent_outcome [OF ext clean all, where input_text = input_text
          and user_id = user_id and conversation_id = conversation_id
          and history_messages = hist and llama_agent = llama_agent and n = "n + 1"]
      by (simp only: eq pre la sum.case)
  qed
qed

lemma execute_run_terminal_on_working_database:
  assumes "runs db run_id = Some run"
    and "\<forall>s. s \<noteq> BuildAgent \<longrightarrow> fault e s = None"
  shows "\<exists>db' run'.
           execute_run e run_id agent input_text db user_id conversation_id = Inr db'
           \<and> runs db' run_id = Some run'
           \<and> (if nothing_raises e agent input_text db user_id conversation_id
              then run_status run' = COMPLETED
              else run_status run' = FAILED \<and> run_error_message run' \<noteq> None
                   \<and> (\<exists>s \<in> set (drop (length (run_steps db)) (run_steps db')).
                         step_run_id s = run_id \<and> step_type s = ERROR))"
  using execute_run_outcome [OF assms, of agent input_text user_id conversation_id]
  by (auto simp: ends_failed_def split: if_splits)

text \<open>The LLM fails: the run ends FAILED with the message and an ERROR step.\<close>

lemma llm_failure_ends_failed:
  "\<not> isl (execute_run llm_down_env 1 support_agent ''What is 2+2?'' example_db 1 None)
   \<and> map_option run_status
         (runs (final_db (execute_run llm_down_env 1 support_agent ''What is 2+2?'' example_db 1 None)) 1)
       = Some FAILED
   \<and> map_option run_error_message
         (runs (final_db (execute_run llm_down_env 1 support_agent ''What is 2+2?'' example_db 1 None)) 1)
       = Some (Some ''rate limit exceeded'')
   \<and> map step_type
         (run_steps (final_db (execute_run llm_down_env 1 support_agent ''What is 2+2?'' example_db 1 None)))
       = [LLM_CALL, ERROR]"
  using execute_run_terminal_on_working_database [of example_db 1 example_run llm_down_env
      support_agent "''What is 2+2?''" 1 None]
  by (simp add: run_defs example_defs nothing_raises_def loop_succeeds_def history_of_def)

subsection \<open>Step order\<close>














subsection \<open>execute_run_async\<close>




subsection \<open>The history step\<close>

lemma plain_tail_fatal_error: "plain_tail (committed ses) (leave (fatal_error e run_id n x ses))"
  by (auto simp: plain_tail_def fatal_error_def update_run_def log_step_def db_commit_def
      leave_def final_db_def Let_def split: option.splits)

lemma plain_tail_step:
  assumes "run_steps db1 = run_steps db @ ys"
    and "\<forall>s \<in> set ys. step_input_data s = None \<and> (step_type s = FINAL_ANSWER \<or> step_type s = ERROR)"
    and "plain_tail db1 r"
  shows "plain_tail db r"
  using assms by (auto simp: plain_tail_def)

lemma plain_tail_same:
  assumes "run_steps db1 = run_steps db" and "plain_tail db1 r"
  shows "plain_tail db r"
  using assms by (auto simp: plain_tail_def)

lemma plain_tail_loop_failed: "plain_tail (committed ses) (leave (loop_failed e run_id n x ses))"
proof (cases "log_step e LogLoopError ses run_id n ERROR None None None (Some (str_exn x)) None")
  case (Inl raised)
  obtain x' ses' where r: "raised = (x', ses')" by (cases raised)
  have c: "committed ses' = committed ses"
    using Inl log_step_raised unfolding r by blast
  show ?thesis
    using plain_tail_fatal_error [of ses' e run_id n x']
    by (simp add: loop_failed_def Inl r c)
next
  case (Inr ses1)
  then have s1: "run_steps (committed ses1)
                   = run_steps (committed ses)
                     @ [\<lparr>step_run_id = run_id, step_order = n, step_type = ERROR,
                         step_input_data = None, step_output_data = None,
                         step_tool_name = None, step_error_message = Some (str_exn x),
                         step_duration_ms = None\<rparr>]"
    by (auto simp: log_step_def db_commit_def Let_def split: if_splits option.splits)
  have "plain_tail (committed ses1) (leave (loop_failed e run_id n x ses))"
  proof (cases "update_run e FailCommit run_id
                  (\<lambda>run. run\<lparr>run_status := FAILED,
                              run_error_message := Some (str_exn x),
                              run_completed_at := Some (utcnow e FailCommit)\<rparr>) ses1")
    case u: (Inl raised)
    obtain x' ses' where r: "raised = (x', ses')" by (cases raised)
    have c: "committed ses' = committed ses1"
      using u update_run_raised unfolding r by blast
    show ?thesis
      using plain_tail_fatal_error [of ses' e run_id n x']
      by (simp add: loop_failed_def Inr u r c)
  next
    case u: (Inr ses2)
    then have "run_steps (committed ses2) = run_steps (committed ses1)"
      by (auto simp: update_run_def db_commit_def split: if_splits option.splits)
    then show ?thesis
      by (simp add: loop_failed_def Inr u plain_tail_def)
  qed
  then show ?thesis
    by (rule plain_tail_step [rotated 2]) (simp add: s1, simp)
qed

lemma add_message_steps:
  "add_message e s ses c u role content = Inr ses' \<Longrightarrow>
     run_steps (committed ses') = run_steps (committed ses)"
  by (auto simp: add_message_def db_commit_def Let_def split: if_splits option.splits)

lemma plain_tail_run_agent:
  "plain_tail (committed ses)
     (leave (run_agent e run_id input_text user_id conversation_id n history_messages
               llama_agent ses))"
proof (cases "agent_run e llama_agent (prepare_input history_messages input_text)")
  case (Inl x)
  then show ?thesis
    by (simp add: run_agent_def Let_def plain_tail_loop_failed)
next
  case (Inr output_text)
  have tail: "plain_tail (committed ses2)
      (leave (case log_step e LogFinalAnswer ses2 run_id n FINAL_ANSWER None
                             (Some [(''answer'', output_text)]) None None (Some (elapsed_ms e)) of
                        Inl (x, ses') \<Rightarrow> loop_failed e run_id n x ses'
                      | Inr ses3 \<Rightarrow>
                          (case update_run e CompleteCommit run_id
                                  (\<lambda>run. run\<lparr>run_status := COMPLETED,
                                              run_output_text := Some output_text,
                                              run_completed_at := Some (utcnow e CompleteCommit)\<rparr>)
                                  ses3 of
                             Inl (x, ses') \<Rightarrow> loop_failed e run_id n x ses'
                           | Inr ses4 \<Rightarrow> Inr ses4)))" for ses2
  proof (cases "log_step e LogFinalAnswer ses2 run_id n FINAL_ANSWER None
                             (Some [(''answer'', output_text)]) None None (Some (elapsed_ms e))")
    case (Inl raised)
    obtain x' ses' where r: "raised = (x', ses')" by (cases raised)
    have c: "committed ses' = committed ses2"
      using Inl log_step_raised unfolding r by blast
    show ?thesis
      using plain_tail_loop_failed [of ses' e run_id n x']
      by (simp add: Inl r c)
  next
    case l: (Inr ses3)
    then have s3: "run_steps (committed ses3)
                   = run_steps (committed ses2)
                     @ [\<lparr>step_run_id = run_id, step_order = n, step_type = FINAL_ANSWER,
                  step_input_data = None, step_output_data = Some [(''answer'', output_text)],
                  step_tool_name = None, step_error_message = None,
                  step_duration_ms = Some (elapsed_ms e)\<rparr>]"
      by (auto simp: log_step_def db_commit_def Let_def split: if_splits option.splits)
    have "plain_tail (committed ses3) (leave (case update_run e CompleteCommit run_id
                                  (\<lambda>run. run\<lparr>run_status := COMPLETED,
                                              run_output_text := Some output_text,
                                              run_completed_at := Some (utcnow e CompleteCommit)\<rparr>)
                                  ses3 of
                             Inl (x, ses') \<Rightarrow> loop_failed e run_id n x ses'
                           | Inr ses4 \<Rightarrow> Inr ses4))"
    proof (cases "update_run e CompleteCommit run_id
                                  (\<lambda>run. run\<lparr>run_status := COMPLETED,
                                              run_output_text := Some output_text,
                                              run_completed_at := Some (utcnow e CompleteCommit)\<rparr>)
                                  ses3")
      case u: (Inl raised)
      obtain x' ses' where r: "raised = (x', ses')" by (cases raised)
      have c: "committed ses' = committed ses3"
        using u update_run_raised unfolding r by blast
      show ?thesis
        using plain_tail_loop_failed [of ses' e run_id n x']
        by (simp add: u r c)
    next
      case u: (Inr ses4)
      then have "run_steps (committed ses4) = run_steps (committed ses3)"
        by (auto simp: update_run_def db_commit_def split: if_splits option.splits)
      then show ?thesis
        by (simp add: u plain_tail_def)
    qed
    then show ?thesis
      unfolding l sum.case
      by (rule plain_tail_step [rotated 2]) (simp add: s3, simp)
  qed
  show ?thesis
  proof (cases "attached conversation_id")
    case None
    then show ?thesis
      using tail [of ses] by (simp add: run_agent_def Let_def Inr)
  next
    case (Some c)
    show ?thesis
    proof (cases "add_message e AddUserMessage ses c user_id ''user'' input_text")
      case (Inl raised)
      obtain x' ses' where r: "raised = (x', ses')" by (cases raised)
      have c: "committed ses' = committed ses"
        using Inl add_message_raised unfolding r by blast
      show ?thesis
        using plain_tail_loop_failed [of ses' e run_id n x']
        by (simp add: run_agent_def Let_def Inr Some Inl r c)
    next
      case m1: (Inr ses1)
      have s1: "run_steps (committed ses1) = run_steps (committed ses)"
        using m1 by (rule add_message_steps)
      show ?thesis
      proof (cases "add_message e AddAssistantMessage ses1 c user_id ''assistant'' output_text")
        case (Inl raised)
        obtain x' ses' where r: "raised = (x', ses')" by (cases raised)
        have c: "committed ses' = committed ses1"
          using Inl add_message_raised unfolding r by blast
        have "plain_tail (committed ses1)
                (leave (run_agent e run_id input_text user_id conversation_id n history_messages
                          llama_agent ses))"
          using plain_tail_loop_failed [of ses' e run_id n x']
          by (simp add: run_agent_def Let_def Inr Some m1 Inl r c)
        with s1 show ?thesis by (rule plain_tail_same)
      next
        case m2: (Inr ses2)
        have s2: "run_steps (committed ses2) = run_steps (committed ses)"
          using add_message_steps [OF m2] s1 by simp
        have "plain_tail (committed ses2)
                (leave (run_agent e run_id input_text user_id conversation_id n history_messages
                          llama_agent ses))"
          using tail [of ses2] by (simp add: run_agent_def Let_def Inr Some m1 m2)
        with s2 show ?thesis by (rule plain_tail_same)
      qed
    qed
  qed
qed

text \<open>
  C5, amended. For every run executed with a valid (existing, caller-owned) conversation
  attached, when the first commit, the load of the history and the two step writes do not
  raise: if the conversation holds at least one message, the first step recorded is the
  informational step with the number of messages loaded, at order 0, the second is the step
  with the raw task input, at order 1, and no later step carries input data, so there is
  exactly one informational step; if the conversation holds no message, the first step is
  the raw task input at order 0 and there is no informational step.
\<close>

theorem history_step_recorded:
  assumes run: "runs db run_id = Some run"
    and att: "attached conversation_id = Some c"
    and conv: "get_conversation db c user_id = Some conversation"
    and f: "fault e StartCommit = None" "fault e LoadHistory = None" "fault e LogHistory = None"
           "fault e LogInput = None"
  shows "\<exists>rest.
           run_steps (final_db (execute_run e run_id agent input_text db user_id conversation_id))
             = run_steps db
               @ (if history_of db user_id conversation_id = [] then []
                  else [\<lparr>step_run_id = run_id, step_order = 0, step_type = LLM_CALL,
                         step_input_data =
                           Some [(''conversation_history'',
                                  ''Loaded ''
                                  @ str_nat (length (history_of db user_id conversation_id))
                                  @ '' previous messages'')],
                         step_output_data = None, step_tool_name = None,
                         step_error_message = None, step_duration_ms = None\<rparr>])
               @ [\<lparr>step_run_id = run_id,
                    step_order = (if history_of db user_id conversation_id = [] then 0 else 1),
                    step_type = LLM_CALL,
                    step_input_data = Some [(''user_input'', input_text)],
                    step_output_data = None, step_tool_name = None,
                    step_error_message = None, step_duration_ms = None\<rparr>]
               @ rest
           \<and> (\<forall>s \<in> set rest. step_input_data s = None
                  \<and> (step_type s = FINAL_ANSWER \<or> step_type s = ERROR))"
proof -
  define hist where "hist = history_of db user_id conversation_id"
  define db1 where "db1 = db\<lparr>runs := (runs db)(run_id \<mapsto> run\<lparr>run_status := RUNNING,
                         run_started_at := Some (utcnow e StartCommit)\<rparr>),
                       journal := journal db @ [RunWrite run_id (run\<lparr>run_status := RUNNING,
                         run_started_at := Some (utcnow e StartCommit)\<rparr>)]\<rparr>"
  define ses1 where "ses1 = \<lparr>committed = db1, needs_rollback = False\<rparr>"
  have u: "update_run e StartCommit run_id
             (\<lambda>run. run\<lparr>run_status := RUNNING,
                         run_started_at := Some (utcnow e StartCommit)\<rparr>)
             \<lparr>committed = db, needs_rollback = False\<rparr> = Inr ses1"
    by (simp add: update_run_def db_commit_def run f db1_def ses1_def)
  have h: "get_conversation_history e ses1 c user_id = Inr hist"
    using att conv
    by (simp add: get_conversation_history_def f hist_def history_of_def db1_def ses1_def
        get_conversation_def)
  define info where "info = \<lparr>step_run_id = run_id, step_order = 0, step_type = LLM_CALL,
                         step_input_data =
                           Some [(''conversation_history'',
                                  ''Loaded '' @ str_nat (length hist) @ '' previous messages'')],
                         step_output_data = None, step_tool_name = None,
                         step_error_message = None, step_duration_ms = None\<rparr>"
  define n where "n = (if hist \<noteq> [] then 1 else 0 :: int)"
  define inp where "inp = \<lparr>step_run_id = run_id, step_order = n, step_type = LLM_CALL,
                    step_input_data = Some [(''user_input'', input_text)],
                    step_output_data = None, step_tool_name = None,
                    step_error_message = None, step_duration_ms = None\<rparr>"
  define db2 where "db2 = (if hist \<noteq> [] then db1\<lparr>run_steps := run_steps db1 @ [info],
                              journal := journal db1 @ [StepWrite info]\<rparr> else db1)"
  define ses2 where "ses2 = \<lparr>committed = db2, needs_rollback = False\<rparr>"
  define db3 where "db3 = db2\<lparr>run_steps := run_steps db2 @ [inp],
                              journal := journal db2 @ [StepWrite inp]\<rparr>"
  define ses3 where "ses3 = \<lparr>committed = db3, needs_rollback = False\<rparr>"
  have l1: "(if hist \<noteq> []
                      then log_step e LogHistory ses1 run_id 0 LLM_CALL
                             (Some [(''conversation_history'',
                                     ''Loaded '' @ str_nat (length hist)
                                     @ '' previous messages'')])
                             None None None None
                      else Inr ses1) = Inr ses2"
    by (simp add: log_step_def db_commit_def f db2_def info_def ses1_def ses2_def Let_def)
  have l2: "log_step e LogInput ses2 run_id n LLM_CALL
                               (Some [(''user_input'', input_text)]) None None None None = Inr ses3"
    by (simp add: log_step_def db_commit_def f db3_def inp_def ses2_def ses3_def Let_def)
  have eq: "execute_run e run_id agent input_text db user_id conversation_id
              = leave (case build_agent (fault e BuildAgent) agent user_id of
                               Inl x \<Rightarrow> fatal_error e run_id (n + 1) x ses3
                             | Inr llama_agent \<Rightarrow>
                                 run_agent e run_id input_text user_id conversation_id
                                   (n + 1) hist llama_agent ses3)"
    unfolding execute_run_def u att h l1 Let_def sum.case option.case n_def [symmetric] l2
    by (rule refl)
  have "plain_tail (committed ses3) (execute_run e run_id agent input_text db user_id conversation_id)"
    unfolding eq
    by (cases "build_agent (fault e BuildAgent) agent user_id")
       (simp_all add: plain_tail_fatal_error plain_tail_run_agent)
  then obtain rest where
    r: "run_steps (final_db (execute_run e run_id agent input_text db user_id conversation_id))
          = run_steps db3 @ rest"
    and p: "\<forall>s \<in> set rest. step_input_data s = None
                  \<and> (step_type s = FINAL_ANSWER \<or> step_type s = ERROR)"
    by (auto simp: plain_tail_def ses3_def)
  have "run_steps db3 = run_steps db @ (if hist = [] then [] else [info]) @ [inp]"
    by (simp add: db3_def db2_def db1_def)
  with r p show ?thesis
    unfolding hist_def [symmetric] info_def [symmetric]
    by (intro exI [of _ rest]) (simp add: inp_def n_def)
qed

text \<open>Conversation 8 of the example database has two messages.\<close>

theorem history_step_recorded_witness:
  "run_steps (final_db (execute_run quiet_env 1 support_agent ''What is 2+2?'' example_db 1 (Some 8)))
     = [\<lparr>step_run_id = 1, step_order = 0, step_type = LLM_CALL,
         step_input_data = Some [(''conversation_history'', ''Loaded 2 previous messages'')],
         step_output_data = None, step_tool_name = None,
         step_error_message = None, step_duration_ms = None\<rparr>,
        \<lparr>step_run_id = 1, step_order = 1, step_type = LLM_CALL,
         step_input_data = Some [(''user_input'', ''What is 2+2?'')],
         step_output_data = None, step_tool_name = None,
         step_error_message = None, step_duration_ms = None\<rparr>,
        \<lparr>step_run_id = 1, step_order = 2, step_type = FINAL_ANSWER,
         step_input_data = None, step_output_data = Some [(''answer'', ''4'')],
         step_tool_name = None, step_error_message = None, step_duration_ms = Some 850\<rparr>]"
  using history_step_recorded [of example_db 1 example_run "Some 8" 8 1
      "\<lparr>conv_agent_id = 3, conv_user_id = 1\<rparr>" quiet_env support_agent "''What is 2+2?''"]
  by (simp add: run_defs quiet_env_def example_db_def example_run_def history_of_def
      char_of_def bit_Suc_0_iff)

text \<open>
  C5 as stated fails: conversation 5 exists and belongs to the caller, it has no message
  yet, and the run records the raw input and the final answer only.
\<close>

theorem history_step_counterexample:
  "get_conversation example_db 5 1 = Some \<lparr>conv_agent_id = 3, conv_user_id = 1\<rparr>
   \<and> map step_input_data
        (run_steps (final_db (execute_run quiet_env 1 support_agent ''What is 2+2?'' example_db 1 (Some 5))))
       = [Some [(''user_input'', ''What is 2+2?'')], None]
   \<and> map step_type
        (run_steps (final_db (execute_run quiet_env 1 support_agent ''What is 2+2?'' example_db 1 (Some 5))))
       = [LLM_CALL, FINAL_ANSWER]"
  by (simp add: run_defs quiet_env_def example_db_def example_run_def)

subsection \<open>The success path\<close>

text \<open>
  C6, amended. For every run in which no call of the \<open>try\<close> block raises (the reasoning
  loop returns an answer; the attached conversation, if any, exists, belongs to the caller
  and takes both messages; the FINAL_ANSWER step is written and the status committed),
  \<open>execute_run\<close> returns and its last writes are, in this order: the user input and the
  assistant output as new turns of the conversation when one is attached, the FINAL_ANSWER
  step with the output text and the elapsed duration, and the run with status COMPLETED,
  \<open>output_text\<close> the answer of the loop and \<open>completed_at\<close> stamped.
\<close>

theorem success_path:
  assumes run: "runs db run_id = Some run"
    and smooth: "nothing_raises e agent input_text db user_id conversation_id"
  shows "\<exists>llama_agent output_text db' setup final_run.
           build_agent (fault e BuildAgent) agent user_id = Inr llama_agent
           \<and> agent_run e llama_agent
                 (prepare_input (history_of db user_id conversation_id) input_text)
               = Inr output_text
           \<and> execute_run e run_id agent input_text db user_id conversation_id = Inr db'
           \<and> journal db'
               = journal db @ setup
                 @ map MessageWrite (new_turns conversation_id input_text output_text)
                 @ [StepWrite
                      \<lparr>step_run_id = run_id,
                       step_order = (if history_of db user_id conversation_id = [] then 1 else 2),
                       step_type = FINAL_ANSWER, step_input_data = None,
                       step_output_data = Some [(''answer'', output_text)],
                       step_tool_name = None, step_error_message = None,
                       step_duration_ms = Some (elapsed_ms e)\<rparr>,
                    RunWrite run_id final_run]
           \<and> messages db' = messages db @ new_turns conversation_id input_text output_text
           \<and> runs db' run_id = Some final_run
           \<and> run_status final_run = COMPLETED
           \<and> run_output_text final_run = Some output_text
           \<and> run_completed_at final_run = Some (utcnow e CompleteCommit)"
proof -
  define hist where "hist = history_of db user_id conversation_id"
  from smooth obtain llama_agent where
    la: "build_agent (fault e BuildAgent) agent user_id = Inr llama_agent"
    and ls: "loop_succeeds e input_text db user_id conversation_id hist llama_agent"
    and f0: "fault e StartCommit = None" "fault e LogInput = None"
    and fh: "attached conversation_id \<noteq> None \<longrightarrow> fault e LoadHistory = None \<and> (hist = [] \<or> fault e LogHistory = None)"
    unfolding hist_def
    by (auto simp: nothing_raises_def split: sum.splits option.splits)
  from ls obtain output_text where
    out: "agent_run e llama_agent (prepare_input hist input_text) = Inr output_text"
    and f1: "fault e LogFinalAnswer = None" "fault e CompleteCommit = None"
    and fc: "attached conversation_id \<noteq> None \<longrightarrow>
               get_conversation db (the (attached conversation_id)) user_id \<noteq> None
               \<and> fault e AddUserMessage = None \<and> fault e AddAssistantMessage = None"
    by (auto simp: loop_succeeds_def split: sum.splits option.splits)
  have hd: "attached conversation_id = None \<Longrightarrow> hist = []"
    by (simp add: hist_def history_of_def)
  show ?thesis
  proof (cases "attached conversation_id")
    case None
    show ?thesis
      apply (intro exI [of _ llama_agent] exI [of _ output_text])
      using run la out f0 f1 hd [OF None]
      unfolding hist_def [symmetric]
      by (simp add: execute_run_def run_agent_def update_run_def log_step_def db_commit_def
          leave_def None new_turns_def Let_def)
  next
    case (Some c)
    with fc obtain conversation where
      conv: "get_conversation db c user_id = Some conversation"
      and fm: "fault e AddUserMessage = None" "fault e AddAssistantMessage = None"
      by auto
    from fh Some have fl: "fault e LoadHistory = None" and flh: "hist = [] \<or> fault e LogHistory = None"
      by auto
    have h: "get_conversation_history e
               \<lparr>committed = db\<lparr>runs := r, journal := j\<rparr>, needs_rollback = False\<rparr> c user_id
             = Inr hist" for r j
      using conv Some
      by (simp add: get_conversation_history_def fl hist_def history_of_def)
    show ?thesis
    proof (cases "hist = []")
      case True
      show ?thesis
        apply (intro exI [of _ llama_agent] exI [of _ output_text])
        using run la out f0 f1 fm conv True h
        unfolding hist_def [symmetric]
        by (simp add: execute_run_def run_agent_def update_run_def log_step_def add_message_def
            db_commit_def leave_def Some new_turns_def Let_def)
    next
      case False
      with flh have "fault e LogHistory = None" by simp
      then show ?thesis
        apply (intro exI [of _ llama_agent] exI [of _ output_text])
        using run la out f0 f1 fm conv False h
        unfolding hist_def [symmetric]
        by (simp add: execute_run_def run_agent_def update_run_def log_step_def add_message_def
            db_commit_def leave_def Some new_turns_def Let_def)
    qed
  qed
qed

text \<open>The example run with the empty conversation 5 attached.\<close>

theorem success_path_witness:
  "execute_run quiet_env 1 support_agent ''What is 2+2?'' example_db 1 (Some 5)
     = Inr (final_db (execute_run quiet_env 1 support_agent ''What is 2+2?'' example_db 1 (Some 5)))
   \<and> drop 2 (journal (final_db
         (execute_run quiet_env 1 support_agent ''What is 2+2?'' example_db 1 (Some 5))))
       = [MessageWrite \<lparr>msg_conversation_id = 5, msg_role = ''user'', msg_content = ''What is 2+2?''\<rparr>,
          MessageWrite \<lparr>msg_conversation_id = 5, msg_role = ''assistant'', msg_content = ''4''\<rparr>,
          StepWrite \<lparr>step_run_id = 1, step_order = 1, step_type = FINAL_ANSWER,
                     step_input_data = None, step_output_data = Some [(''answer'', ''4'')],
                     step_tool_name = None, step_error_message = None,
                     step_duration_ms = Some 850\<rparr>,
          RunWrite 1 (example_run\<lparr>run_status := COMPLETED, run_output_text := Some ''4'',
                                   run_started_at := Some 1700000000,
                                   run_completed_at := Some 1700000000\<rparr>)]
   \<and> runs (final_db (execute_run quiet_env 1 support_agent ''What is 2+2?'' example_db 1 (Some 5))) 1
       = Some (example_run\<lparr>run_status := COMPLETED, run_output_text := Some ''4'',
                            run_started_at := Some 1700000000,
                            run_completed_at := Some 1700000000\<rparr>)"
  using success_path [of example_db 1 example_run quiet_env support_agent "''What is 2+2?''" 1 "Some 5"]
  by (simp add: run_defs quiet_env_def example_db_def example_run_def)

text \<open>
  C6 as stated fails: with conversation 6 attached, which belongs to another user, the
  loop returns its answer, then \<open>add_message\<close> raises, no turn is appended, no FINAL_ANSWER
  step is recorded and the run ends FAILED.
\<close>

theorem success_path_counterexample:
  "agent_run quiet_env (projr (build_agent (fault quiet_env BuildAgent) support_agent 1))
      (prepare_input [] ''What is 2+2?'') = Inr ''4''
   \<and> messages (final_db (execute_run quiet_env 1 support_agent ''What is 2+2?'' example_db 1 (Some 6)))
       = messages example_db
   \<and> map step_type
        (run_steps (final_db (execute_run quiet_env 1 support_agent ''What is 2+2?'' example_db 1 (Some 6))))
       = [LLM_CALL, ERROR]
   \<and> map_option run_status
        (runs (final_db (execute_run quiet_env 1 support_agent ''What is 2+2?'' example_db 1 (Some 6))) 1)
       = Some FAILED
   \<and> map_option run_error_message
        (runs (final_db (execute_run quiet_env 1 support_agent ''What is 2+2?'' example_db 1 (Some 6))) 1)
       = Some (Some ''404: Conversation not found'')"
  by (simp add: run_defs quiet_env_def example_db_def example_run_def str_int_def
      char_of_def bit_Suc_0_iff)

section \<open>Properties of the status stream\<close>

text \<open>
  C7 fails on the code. When COMPLETED is first seen at the last poll, the loop is left by
  \<open>break\<close> with \<open>poll_count = max_polls\<close>, and the test after the loop emits \<open>timeout\<close>
  after \<open>complete\<close>: the stream does not end with its terminal event.
\<close>

theorem stream_complete_then_timeout:
  "stream_run_execution example_db late_finish 1 1
     = [StatusEvent PENDING ''Starting...'',
        StatusEvent RUNNING ''Status: running'',
        HeartbeatEvent 10, HeartbeatEvent 20, HeartbeatEvent 30, HeartbeatEvent 40,
        HeartbeatEvent 50, HeartbeatEvent 60, HeartbeatEvent 70, HeartbeatEvent 80,
        HeartbeatEvent 90, HeartbeatEvent 100, HeartbeatEvent 110,
        StatusEvent COMPLETED ''Status: completed'',
        CompleteEvent (Some ''4''),
        TimeoutEvent ''Run execution timeout'']"
  by code_simp

text \<open>
  Apart from that boundary the stream is as described. When the run is first read terminal
  at poll \<open>k\<close>, the stream is progress events (status changes and heartbeats), then the
  terminal event, then \<open>timeout\<close> only if \<open>k\<close> is the last poll; when no poll up to the last
  reads it terminal, the stream is progress events, then \<open>timeout\<close>. In both cases the
  heartbeats are those of the polls before \<open>k\<close>, or up to the last, whose count is a
  multiple of 10.
\<close>

lemma heartbeats_append: "heartbeats (xs @ ys) = heartbeats xs @ heartbeats ys"
  by (induction xs rule: heartbeats.induct) auto

lemma poll_loop_in_progress:
  assumes "p < max_polls" and "observe (Suc p) = Inr run" and "\<not> terminal (run_status run)"
  shows "poll_loop observe p ls
           = (if run_status run \<noteq> ls
              then [StatusEvent (run_status run) (''Status: '' @ status_value (run_status run))]
              else [])
             @ (if Suc p mod 10 = 0 then [HeartbeatEvent (Suc p)] else [])
             @ poll_loop observe (Suc p) (run_status run)"
  using assms by (subst poll_loop.simps) (simp add: terminal_def Let_def)

lemma poll_loop_terminal:
  assumes "p < max_polls" and "observe (Suc p) = Inr run" and "terminal (run_status run)"
  shows "poll_loop observe p ls
           = (if run_status run \<noteq> ls
              then [StatusEvent (run_status run) (''Status: '' @ status_value (run_status run))]
              else [])
             @ [terminal_event run] @ after_loop (Suc p)"
  using assms by (subst poll_loop.simps) (auto simp: terminal_def terminal_event_def Let_def)

lemma poll_loop_until_terminal:
  assumes "k \<le> max_polls" and "p < k"
    and "\<forall>i. p < i \<and> i < k \<longrightarrow> in_progress observe i"
    and "observe k = Inr run" and "terminal (run_status run)"
  shows "\<exists>pre. poll_loop observe p ls = pre @ [terminal_event run] @ after_loop k
           \<and> list_all progress_event pre
           \<and> heartbeats pre = filter (\<lambda>i. i mod 10 = 0) [Suc p ..< k]"
  using assms(2,3)
proof (induction "k - Suc p" arbitrary: p ls)
  case 0
  then have k: "k = Suc p" by simp
  have p: "p < max_polls" using assms(1) k by simp
  show ?case
    unfolding poll_loop_terminal [where observe = observe and p = p and run = run,
                                  OF p assms(4) [unfolded k] assms(5)] k
    by (rule exI [of _ "if run_status run \<noteq> ls
              then [StatusEvent (run_status run) (''Status: '' @ status_value (run_status run))]
              else []"]) simp
next
  case (Suc d)
  then have lt: "Suc p < k" by simp
  then have p: "p < max_polls" using assms(1) by simp
  from Suc.prems(2) lt have "in_progress observe (Suc p)" by simp
  then obtain r where r: "observe (Suc p) = Inr r" and nt: "\<not> terminal (run_status r)"
    by (auto simp: in_progress_def split: sum.splits)
  have d: "d = k - Suc (Suc p)" using Suc.hyps(2) by simp
  have q: "\<forall>i. Suc p < i \<and> i < k \<longrightarrow> in_progress observe i"
    using Suc.prems(2) by simp
  from Suc.hyps(1) [OF d lt q, of "run_status r"] obtain pre where
    pre: "poll_loop observe (Suc p) (run_status r) = pre @ [terminal_event run] @ after_loop k"
    and pp: "list_all progress_event pre"
    and hb: "heartbeats pre = filter (\<lambda>i. i mod 10 = 0) [Suc (Suc p) ..< k]"
    by blast
  let ?head = "(if run_status r \<noteq> ls
              then [StatusEvent (run_status r) (''Status: '' @ status_value (run_status r))]
              else [])
             @ (if Suc p mod 10 = 0 then [HeartbeatEvent (Suc p)] else [])"
  have "poll_loop observe p ls = (?head @ pre) @ [terminal_event run] @ after_loop k"
    unfolding poll_loop_in_progress [where observe = observe and p = p and run = r, OF p r nt] pre
    by simp
  moreover have "list_all progress_event (?head @ pre)"
    using pp by simp
  moreover have "heartbeats (?head @ pre) = filter (\<lambda>i. i mod 10 = 0) [Suc p ..< k]"
    using hb lt by (simp add: heartbeats_append upt_conv_Cons)
  ultimately show ?case by blast
qed

lemma poll_loop_exhausted:
  assumes "p \<le> max_polls"
    and "\<forall>i. p < i \<and> i \<le> max_polls \<longrightarrow> in_progress observe i"
  shows "\<exists>pre. poll_loop observe p ls = pre @ [TimeoutEvent ''Run execution timeout'']
           \<and> list_all progress_event pre
           \<and> heartbeats pre = filter (\<lambda>i. i mod 10 = 0) [Suc p ..< Suc max_polls]"
  using assms
proof (induction "max_polls - p" arbitrary: p ls)
  case 0
  then have p: "p = max_polls" by simp
  show ?case
    unfolding p by (subst poll_loop.simps) (simp add: after_loop_def)
next
  case (Suc d)
  then have p: "p < max_polls" by simp
  with Suc.prems(2) have "in_progress observe (Suc p)" by simp
  then obtain r where r: "observe (Suc p) = Inr r" and nt: "\<not> terminal (run_status r)"
    by (auto simp: in_progress_def split: sum.splits)
  have d: "d = max_polls - Suc p" using Suc.hyps(2) by simp
  have le: "Suc p \<le> max_polls" using p by simp
  have q: "\<forall>i. Suc p < i \<and> i \<le> max_polls \<longrightarrow> in_progress observe i"
    using Suc.prems(2) by simp
  from Suc.hyps(1) [OF d le q, of "run_status r"] obtain pre where
    pre: "poll_loop observe (Suc p) (run_status r) = pre @ [TimeoutEvent ''Run execution timeout'']"
    and pp: "list_all progress_event pre"
    and hb: "heartbeats pre = filter (\<lambda>i. i mod 10 = 0) [Suc (Suc p) ..< Suc max_polls]"
    by blast
  let ?head = "(if run_status r \<noteq> ls
              then [StatusEvent (run_status r) (''Status: '' @ status_value (run_status r))]
              else [])
             @ (if Suc p mod 10 = 0 then [HeartbeatEvent (Suc p)] else [])"
  have "poll_loop observe p ls = (?head @ pre) @ [TimeoutEvent ''Run execution timeout'']"
    unfolding poll_loop_in_progress [where observe = observe and p = p and run = r, OF p r nt] pre
    by simp
  moreover have "list_all progress_event (?head @ pre)"
    using pp by simp
  moreover have "heartbeats (?head @ pre) = filter (\<lambda>i. i mod 10 = 0) [Suc p ..< Suc max_polls]"
    using hb p by (simp add: heartbeats_append upt_conv_Cons del: upt_Suc)
  ultimately show ?case by blast
qed

lemma stream_until_terminal:
  assumes "runs db run_id = Some run0" and "run_user_id run0 = user_id"
    and "0 < k" and "k \<le> max_polls"
    and "\<forall>i. 0 < i \<and> i < k \<longrightarrow> in_progress observe i"
    and "observe k = Inr run" and "terminal (run_status run)"
  shows "\<exists>pre. stream_run_execution db observe run_id user_id
                 = pre @ [terminal_event run]
                   @ (if k = max_polls then [TimeoutEvent ''Run execution timeout''] else [])
           \<and> list_all progress_event pre
           \<and> heartbeats pre = filter (\<lambda>i. i mod 10 = 0) [1 ..< k]"
proof -
  from poll_loop_until_terminal [OF assms(4,3,5,6,7), of "run_status run0"] obtain pre where
    pre: "poll_loop observe 0 (run_status run0) = pre @ [terminal_event run] @ after_loop k"
    and pp: "list_all progress_event pre"
    and hb: "heartbeats pre = filter (\<lambda>i. i mod 10 = 0) [Suc 0 ..< k]"
    by blast
  have "stream_run_execution db observe run_id user_id
          = (StatusEvent (run_status run0) ''Starting...'' # pre) @ [terminal_event run]
            @ (if k = max_polls then [TimeoutEvent ''Run execution timeout''] else [])"
    using assms(1,2,4) by (auto simp: stream_run_execution_def pre after_loop_def)
  moreover have "list_all progress_event (StatusEvent (run_status run0) ''Starting...'' # pre)"
    using pp by simp
  moreover have "heartbeats (StatusEvent (run_status run0) ''Starting...'' # pre)
                   = filter (\<lambda>i. i mod 10 = 0) [1 ..< k]"
    using hb by simp
  ultimately show ?thesis by blast
qed

lemma stream_exhausted:
  assumes "runs db run_id = Some run0" and "run_user_id run0 = user_id"
    and "\<forall>i. 0 < i \<and> i \<le> max_polls \<longrightarrow> in_progress observe i"
  shows "\<exists>pre. stream_run_execution db observe run_id user_id
                 = pre @ [TimeoutEvent ''Run execution timeout'']
           \<and> list_all progress_event pre
           \<and> heartbeats pre = filter (\<lambda>i. i mod 10 = 0) [1 ..< Suc max_polls]"
proof -
  from poll_loop_exhausted [of 0 observe "run_status run0"] assms(3) obtain pre where
    pre: "poll_loop observe 0 (run_status run0) = pre @ [TimeoutEvent ''Run execution timeout'']"
    and pp: "list_all progress_event pre"
    and hb: "heartbeats pre = filter (\<lambda>i. i mod 10 = 0) [Suc 0 ..< Suc max_polls]"
    by auto
  have "stream_run_execution db observe run_id user_id
          = (StatusEvent (run_status run0) ''Starting...'' # pre)
            @ [TimeoutEvent ''Run execution timeout'']"
    using assms(1,2) by (simp add: stream_run_execution_def pre)
  moreover have "list_all progress_event (StatusEvent (run_status run0) ''Starting...'' # pre)"
    using pp by simp
  moreover have "heartbeats (StatusEvent (run_status run0) ''Starting...'' # pre)
                   = filter (\<lambda>i. i mod 10 = 0) [1 ..< Suc max_polls]"
    using hb by simp
  ultimately show ?thesis by blast
qed

end
